theory Spec2Isabelle
  imports Complex_Main
begin

section \<open>Battery thermal model: values, errors and heat-flow primitives\<close>

text \<open>
  The embedding follows \<^verbatim>\<open>Battery/battery_thermal_model.py\<close>. Python floats are
  modelled as real numbers, so rounding, overflow and NaN are outside the model. Every
  division of the source is a branch of the model: a zero divisor is the value
  \<open>Inl ZeroDivisionError\<close>, as Python and numba (default error model) raise it.
\<close>

datatype py_error = ZeroDivisionError | IndexError | TypeError | ValueError

type_synonym 'a result = "py_error + 'a"

definition bind_result :: "'a result \<Rightarrow> ('a \<Rightarrow> 'b result) \<Rightarrow> 'b result" where
  "bind_result m f = (case m of Inl e \<Rightarrow> Inl e | Inr x \<Rightarrow> f x)"

definition py_div :: "real \<Rightarrow> real \<Rightarrow> real result" where
  "py_div a b = (if b = 0 then Inl ZeroDivisionError else Inr (a / b))"

text \<open>
  An entry of \<^verbatim>\<open>material_list\<close> is a tuple of floats or \<^verbatim>\<open>None\<close>. The tuple layout
  built by \<^verbatim>\<open>Container.__post_init__\<close> is
  (thickness, thermal conductivity, heat capacity, density, emissivity).
\<close>

datatype pyval = PyNone | PyTuple "real list"

fun truthy :: "pyval \<Rightarrow> bool" where
  "truthy PyNone = False"
| "truthy (PyTuple xs) = (xs \<noteq> [])"

text \<open>\<^verbatim>\<open>xs[i]\<close> on a list, and \<^verbatim>\<open>v[i]\<close> on a list entry.\<close>

definition list_index :: "'a list \<Rightarrow> nat \<Rightarrow> 'a result" where
  "list_index xs i = (if i < length xs then Inr (xs ! i) else Inl IndexError)"

fun subscript :: "pyval \<Rightarrow> nat \<Rightarrow> real result" where
  "subscript PyNone i = Inl TypeError"
| "subscript (PyTuple xs) i = list_index xs i"

text \<open>The unpacking \<^verbatim>\<open>thickness_m, thermal_conductivity, _, _, _ = v\<close>.\<close>

fun unpack5 :: "pyval \<Rightarrow> (real \<times> real \<times> real \<times> real \<times> real) result" where
  "unpack5 PyNone = Inl TypeError"
| "unpack5 (PyTuple [a, b, c, d, e]) = Inr (a, b, c, d, e)"
| "unpack5 (PyTuple xs) = Inl ValueError"

definition calculate_convective_resistance :: "real \<Rightarrow> real \<Rightarrow> real result" where
  "calculate_convective_resistance heat_transfer_coefficient area_m2 =
     py_div 1 (heat_transfer_coefficient * area_m2)"

definition calculate_conductive_resistance :: "real \<Rightarrow> real \<Rightarrow> real \<Rightarrow> real result" where
  "calculate_conductive_resistance thickness_m thermal_conductivity area_m2 =
     py_div thickness_m (thermal_conductivity * area_m2)"

text \<open>The loop of \<^verbatim>\<open>calculate_composite_conductive_resistance\<close>, with its accumulator.\<close>

fun composite_loop :: "pyval list \<Rightarrow> real \<Rightarrow> real \<Rightarrow> real result" where
  "composite_loop [] area_m2 total_resistance = Inr total_resistance"
| "composite_loop (m # ms) area_m2 total_resistance =
     bind_result (unpack5 m) (\<lambda>(thickness_m, thermal_conductivity, _, _, _).
     bind_result (py_div thickness_m (thermal_conductivity * area_m2)) (\<lambda>resistance.
     composite_loop ms area_m2 (total_resistance + resistance)))"

definition calculate_composite_conductive_resistance :: "pyval list \<Rightarrow> real \<Rightarrow> real result" where
  "calculate_composite_conductive_resistance materials area_m2 = composite_loop materials area_m2 0"

definition calculate_heat_energy_flow :: "real \<Rightarrow> real \<Rightarrow> real \<Rightarrow> real \<Rightarrow> real result" where
  "calculate_heat_energy_flow internal_temperature external_temperature thermal_resistance duration_seconds =
     bind_result (py_div (internal_temperature - external_temperature) thermal_resistance) (\<lambda>power_watts.
     Inr (power_watts * duration_seconds))"

definition stefan_boltzmann_constant :: real where
  "stefan_boltzmann_constant = 567 / 10000000000"

definition calculate_inner_radiative_heat_flow ::
  "real \<Rightarrow> real \<Rightarrow> real \<Rightarrow> real \<Rightarrow> real \<Rightarrow> real \<Rightarrow> real \<Rightarrow> real result" where
  "calculate_inner_radiative_heat_flow surface_area_inner surface_area_outer emissivity_inner
       emissivity_outer temperature_inner_c temperature_outer_c duration_seconds =
     (let temperature_inner_k = temperature_inner_c + 273.15;
          temperature_outer_k = temperature_outer_c + 273.15
      in bind_result (py_div 1 emissivity_inner) (\<lambda>inv_inner.
         bind_result (py_div surface_area_inner surface_area_outer) (\<lambda>area_ratio.
         bind_result (py_div 1 emissivity_outer) (\<lambda>inv_outer.
         bind_result (py_div 1 (inv_inner + area_ratio * (inv_outer - 1))) (\<lambda>effective_emissivity.
         Inr (stefan_boltzmann_constant * effective_emissivity * surface_area_inner
                * (temperature_inner_k ^ 4 - temperature_outer_k ^ 4) * duration_seconds))))))"

definition calculate_outer_radiative_heat_flow ::
  "real \<Rightarrow> real \<Rightarrow> real \<Rightarrow> real \<Rightarrow> real \<Rightarrow> real" where
  "calculate_outer_radiative_heat_flow surface_area emissivity temperature_inner_c
       temperature_outer_c duration_seconds =
     (let temperature_inner_k = temperature_inner_c + 273.15;
          temperature_outer_k = temperature_outer_c + 273.15
      in stefan_boltzmann_constant * emissivity * surface_area
           * (temperature_inner_k ^ 4 - temperature_outer_k ^ 4) * duration_seconds)"

text \<open>
  \<^verbatim>\<open>calculate_air_heat_capacity\<close>: the specific heat of moist air. It is the only
  function of the module that reads a humidity value.
\<close>

definition calculate_air_heat_capacity :: "real \<Rightarrow> real \<Rightarrow> real result" where
  "calculate_air_heat_capacity temperature relative_humidity =
     bind_result (py_div (17.67 * temperature) (temperature + 243.5)) (\<lambda>q.
     (let es = 6.112 * exp q;
          e = (relative_humidity / 100) * es
      in bind_result (py_div (0.622 * e) (1013.25 - e)) (\<lambda>mixing_ratio.
         Inr (1005 + mixing_ratio * 1860))))"

definition calc_change_in_temperature_c :: "real \<Rightarrow> real \<Rightarrow> real \<Rightarrow> real \<Rightarrow> real result" where
  "calc_change_in_temperature_c initial_temp heat_energy heat_capacity mass =
     bind_result (py_div heat_energy (heat_capacity * mass)) (\<lambda>delta_temp.
     Inr (initial_temp + delta_temp))"

section \<open>The thermal network builder\<close>

text \<open>
  \<^verbatim>\<open>calculate_heat_transfer_areas\<close> lives in \<^verbatim>\<open>Battery/battery_model_functions.py\<close>,
  which is not part of the sources at hand; the builder takes it as the parameter
  \<open>areas\<close>. It returns the battery conductive and convective areas, the air convective
  area and the box conductive and convective areas. An empty transfer array stands for
  \<^verbatim>\<open>None\<close> as well.
\<close>

type_synonym areas_fn =
  "real \<Rightarrow> real \<Rightarrow> real \<Rightarrow> real \<Rightarrow> real \<Rightarrow> real \<Rightarrow> int list \<Rightarrow> int list
     \<Rightarrow> (real \<times> real \<times> real \<times> real \<times> real) result"

record network =
  net_box_wall_mass_kg :: real
  net_box_heat_capacity :: real
  net_battery_conductive_resistance :: real
  net_battery_convective_resistance :: real
  net_box_inner_convective_resistance :: real
  net_box_composite_conductive_resistance :: real
  net_box_outer_conductive_resistance :: real
  net_box_outer_convective_resistance :: real
  net_total_box_area :: real
  net_total_battery_area :: real

text \<open>
  The four reads of a layer in \<^verbatim>\<open>calculate_battery_box_parameters\<close>: index 0 is bound
  to the name \<^verbatim>\<open>..._thermal_conductivity\<close> and index 1 to \<^verbatim>\<open>..._layer_thickness\<close>.
\<close>

definition read_layer :: "pyval \<Rightarrow> (real \<times> real \<times> real \<times> real) result" where
  "read_layer m =
     bind_result (subscript m 0) (\<lambda>material_thermal_conductivity.
     bind_result (subscript m 1) (\<lambda>material_layer_thickness.
     bind_result (subscript m 2) (\<lambda>material_heat_capacity.
     bind_result (subscript m 3) (\<lambda>material_density.
     Inr (material_thermal_conductivity, material_layer_thickness,
          material_heat_capacity, material_density)))))"

text \<open>
  The reads of the two layers. The first entry of the list is bound to the names
  \<^verbatim>\<open>outer_material_...\<close>; when the second entry is falsy the first one is halved
  and copied. The result is the outer layer followed by the inner layer.
\<close>

definition select_layers ::
  "pyval list \<Rightarrow> ((real \<times> real \<times> real \<times> real) \<times> (real \<times> real \<times> real \<times> real)) result" where
  "select_layers material_list =
     bind_result (list_index material_list 0) (\<lambda>m0.
     bind_result (read_layer m0)
       (\<lambda>(outer_material_thermal_conductivity, outer_material_layer_thickness,
          outer_material_heat_capacity, outer_material_density).
     bind_result (list_index material_list 1) (\<lambda>m1.
     if truthy m1 then
       bind_result (read_layer m1) (\<lambda>inner.
       Inr ((outer_material_thermal_conductivity, outer_material_layer_thickness,
             outer_material_heat_capacity, outer_material_density), inner))
     else
       (let outer_material_layer_thickness' = outer_material_layer_thickness / 2
        in Inr ((outer_material_thermal_conductivity, outer_material_layer_thickness',
                 outer_material_heat_capacity, outer_material_density),
                (outer_material_thermal_conductivity, outer_material_layer_thickness',
                 outer_material_heat_capacity, outer_material_density))))))"

definition calculate_battery_box_parameters ::
  "areas_fn \<Rightarrow> real \<Rightarrow> real \<Rightarrow> real \<Rightarrow> real \<Rightarrow> real \<Rightarrow> real \<Rightarrow> int list \<Rightarrow> int list
     \<Rightarrow> pyval list \<Rightarrow> network result" where
  "calculate_battery_box_parameters areas battery_length battery_width battery_height
       box_length box_width box_height battery_transfer_array box_transfer_array material_list =
     bind_result
       (areas battery_length battery_width battery_height box_length box_width box_height
          (if battery_transfer_array = [] then [0, 1, 1, 1, 1, 1] else battery_transfer_array)
          (if box_transfer_array = [] then [0, 1, 1, 1, 1, 1] else box_transfer_array))
       (\<lambda>(battery_conductive_area, battery_convective_area, air_convective_area,
          box_conductive_area, box_convective_area).
     let total_box_area = box_conductive_area + box_convective_area;
         total_battery_area = battery_conductive_area + battery_convective_area
     in
     bind_result (select_layers material_list)
       (\<lambda>((outer_material_thermal_conductivity, outer_material_layer_thickness,
           outer_material_heat_capacity, outer_material_density),
          (inner_material_thermal_conductivity, inner_material_layer_thickness,
           inner_material_heat_capacity, inner_material_density)).
     let box_wall_mass_kg =
           (total_box_area / 2 * inner_material_density * inner_material_layer_thickness)
           + (total_box_area / 2 * outer_material_density) * outer_material_layer_thickness;
         box_heat_capacity = (inner_material_heat_capacity + outer_material_heat_capacity) / 2
     in
     bind_result (calculate_conductive_resistance inner_material_layer_thickness
                    inner_material_thermal_conductivity battery_conductive_area)
       (\<lambda>battery_conductive_resistance.
     bind_result (calculate_convective_resistance 5 battery_convective_area)
       (\<lambda>battery_convective_resistance.
     bind_result (calculate_convective_resistance 5 air_convective_area)
       (\<lambda>box_inner_convective_resistance.
     bind_result (calculate_composite_conductive_resistance material_list total_box_area)
       (\<lambda>box_composite_conductive_resistance.
     bind_result (calculate_conductive_resistance outer_material_layer_thickness
                    outer_material_thermal_conductivity box_conductive_area)
       (\<lambda>box_outer_conductive_resistance.
     bind_result (calculate_convective_resistance 5 box_convective_area)
       (\<lambda>box_outer_convective_resistance.
     Inr \<lparr> net_box_wall_mass_kg = box_wall_mass_kg,
           net_box_heat_capacity = box_heat_capacity,
           net_battery_conductive_resistance = battery_conductive_resistance,
           net_battery_convective_resistance = battery_convective_resistance,
           net_box_inner_convective_resistance = box_inner_convective_resistance,
           net_box_composite_conductive_resistance = box_composite_conductive_resistance,
           net_box_outer_conductive_resistance = box_outer_conductive_resistance,
           net_box_outer_convective_resistance = box_outer_convective_resistance,
           net_total_box_area = total_box_area,
           net_total_battery_area = total_battery_area \<rparr>))))))))"


section \<open>The simulation engine\<close>

text \<open>
  The scalar arguments shared by \<^verbatim>\<open>calculate_net_energy_flows\<close> and
  \<^verbatim>\<open>jit_battery_energy_flow_model\<close>, then the arguments of each. At run time
  \<^verbatim>\<open>heater_time_minutes\<close> is the float handed down by the caller.
\<close>

record engine_args =
  bucket_period_seconds :: real
  battery_mass_kg :: real
  battery_heat_capacity :: real
  heater_threshold_temp_c :: real
  use_heater :: bool
  heater_battery_transfer :: real
  heater_time_minutes :: real
  battery_emissivity :: real
  box_inner_emissivity :: real
  box_outer_emissivity :: real
  battery_throughput_losses :: real

record jit_params = engine_args +
  total_battery_area :: real
  box_wall_mass_kg :: real
  box_heat_capacity :: real
  total_box_area :: real
  battery_conductive_resistance :: real
  battery_convective_resistance :: real
  box_composite_conductive_resistance :: real
  box_outer_conductive_resistance :: real
  box_outer_convective_resistance :: real
  heater_power_j :: real

record flow_args = engine_args +
  box_length :: real
  box_width :: real
  box_height :: real
  battery_length :: real
  battery_width :: real
  battery_height :: real
  battery_losses_perc :: real
  heater_power_w :: real
  battery_transfer_array :: "int list"
  box_transfer_array :: "int list"
  material_list :: "pyval list"

text \<open>The loop variables of \<^verbatim>\<open>jit_battery_energy_flow_model\<close>.\<close>

record state =
  battery_temp_c :: real
  box_inner_temp_c :: real
  box_outer_temp_c :: real
  heater_on :: bool
  heater_counter :: int

text \<open>
  The engine works on one array per column. Iteration \<open>i\<close> reads and writes index
  \<open>i\<close> of every array and nothing else, so the arrays are modelled as a list of rows:
  a row holds index \<open>i\<close> of each array, under the array's name.
\<close>

record row =
  datetime_temp :: nat
  amb_temp :: real
  humidity :: real
  battery_temp :: real
  box_inner_temp :: real
  box_outer_temp :: real
  battery_heater_input :: real
  battery_losses_input :: real
  battery_net_energy :: real
  battery_cond_to_box_inner_energy :: real
  battery_conv_to_box_inner_energy :: real
  battery_radi_to_box_inner_energy :: real
  heater_to_battery_energy :: real
  heater_to_box_inner_energy :: real
  box_inner_net_energy :: real
  box_inner_cond_to_battery_energy :: real
  box_inner_conv_to_battery_energy :: real
  box_inner_radi_to_battery_energy :: real
  box_inner_to_box_outer_energy :: real
  box_outer_net_energy :: real
  box_outer_to_box_inner_energy :: real
  box_outer_cond_to_environment_energy :: real
  box_outer_conv_to_environment_energy :: real
  box_outer_radi_to_environment_energy :: real
  box_outer_cond_from_environment_energy :: real
  box_outer_conv_from_environment_energy :: real
  box_outer_radi_from_environment_energy :: real

subsection \<open>The heater controller\<close>

text \<open>The bookkeeping at the top of the loop body (\<^verbatim>\<open>if heater_on: ...\<close>).\<close>

definition heater_dwell :: "'a jit_params_scheme \<Rightarrow> state \<Rightarrow> state" where
  "heater_dwell p s =
     (if heater_on s then
        (if real_of_int (heater_counter s) < heater_time_minutes p
         then s\<lparr>heater_counter := heater_counter s + 1\<rparr>
         else s\<lparr>heater_on := False, heater_counter := 0\<rparr>)
      else s)"

text \<open>The trigger check against the inner-wall temperature.\<close>

definition heater_trigger :: "'a jit_params_scheme \<Rightarrow> state \<Rightarrow> state" where
  "heater_trigger p s =
     (if box_inner_temp_c s \<le> heater_threshold_temp_c p \<and> use_heater p
      then s\<lparr>heater_on := True, heater_counter := 0\<rparr>
      else s)"

text \<open>The injection block (\<^verbatim>\<open>if use_heater and heater_on: ...\<close>).\<close>

definition heater_inject :: "'a jit_params_scheme \<Rightarrow> state \<times> row \<Rightarrow> (state \<times> row) result" where
  "heater_inject p = (\<lambda>(s, r).
     if use_heater p \<and> heater_on s then
       (let heater_battery_energy_j = heater_power_j p * heater_battery_transfer p;
            heater_wall_energy_j = heater_power_j p * (1 - heater_battery_transfer p);
            r1 = r\<lparr>battery_heater_input := battery_heater_input r + heater_power_j p\<rparr>;
            r2 = r1\<lparr>battery_losses_input :=
                      battery_losses_input r1 + heater_power_j p * battery_throughput_losses p\<rparr>;
            battery_losses_input_energy_j = battery_losses_input r2;
            battery_total_heating_losses_energy_j =
              battery_losses_input_energy_j + heater_battery_energy_j;
            r3 = r2\<lparr>battery_net_energy :=
                      battery_net_energy r2 + battery_total_heating_losses_energy_j\<rparr>;
            r4 = r3\<lparr>box_inner_net_energy := box_inner_net_energy r3 + heater_wall_energy_j\<rparr>;
            r5 = r4\<lparr>heater_to_battery_energy :=
                      heater_to_battery_energy r4 + heater_battery_energy_j\<rparr>;
            r6 = r5\<lparr>heater_to_box_inner_energy :=
                      heater_to_box_inner_energy r5 + heater_wall_energy_j\<rparr>
        in bind_result (calc_change_in_temperature_c (battery_temp_c s)
                          battery_total_heating_losses_energy_j
                          (battery_heat_capacity p) (battery_mass_kg p)) (\<lambda>tb.
           bind_result (calc_change_in_temperature_c (box_inner_temp_c s) heater_wall_energy_j
                          (box_heat_capacity p) (box_wall_mass_kg p)) (\<lambda>ti.
           Inr (s\<lparr>battery_temp_c := tb, box_inner_temp_c := ti,
                   heater_counter := heater_counter s + 1\<rparr>, r6))))
     else Inr (s, r))"

definition heater_phase :: "'a jit_params_scheme \<Rightarrow> state \<times> row \<Rightarrow> (state \<times> row) result" where
  "heater_phase p = (\<lambda>(s, r). heater_inject p (heater_trigger p (heater_dwell p s), r))"

subsection \<open>The heat flows of one timestep, in the order of the loop body\<close>

text \<open>Battery to inner wall, conduction: only above the heater threshold.\<close>

definition cond_phase :: "'a jit_params_scheme \<Rightarrow> state \<times> row \<Rightarrow> (state \<times> row) result" where
  "cond_phase p = (\<lambda>(s, r).
     if box_inner_temp_c s > heater_threshold_temp_c p then
       bind_result (calculate_heat_energy_flow (battery_temp_c s) (box_inner_temp_c s)
                      (battery_conductive_resistance p) (bucket_period_seconds p)) (\<lambda>q.
       (let r1 = r\<lparr>battery_cond_to_box_inner_energy := battery_cond_to_box_inner_energy r + q\<rparr>;
            r2 = r1\<lparr>battery_net_energy := battery_net_energy r1 + - q\<rparr>;
            r3 = r2\<lparr>box_inner_cond_to_battery_energy := box_inner_cond_to_battery_energy r2 + - q\<rparr>;
            r4 = r3\<lparr>box_inner_net_energy := box_inner_net_energy r3 + q\<rparr>
        in bind_result (calc_change_in_temperature_c (battery_temp_c s) (- q)
                          (battery_heat_capacity p) (battery_mass_kg p)) (\<lambda>tb.
           bind_result (calc_change_in_temperature_c (box_inner_temp_c s) q
                          (box_heat_capacity p) (box_wall_mass_kg p)) (\<lambda>ti.
           Inr (s\<lparr>battery_temp_c := tb, box_inner_temp_c := ti\<rparr>, r4)))))
     else Inr (s, r))"

text \<open>Battery to inner wall, convection: temperatures first, tallies after.\<close>

definition conv_phase :: "'a jit_params_scheme \<Rightarrow> state \<times> row \<Rightarrow> (state \<times> row) result" where
  "conv_phase p = (\<lambda>(s, r).
     bind_result (calculate_heat_energy_flow (battery_temp_c s) (box_inner_temp_c s)
                    (battery_convective_resistance p) (bucket_period_seconds p)) (\<lambda>q.
     bind_result (calc_change_in_temperature_c (battery_temp_c s) (- q)
                    (battery_heat_capacity p) (battery_mass_kg p)) (\<lambda>tb.
     bind_result (calc_change_in_temperature_c (box_inner_temp_c s) q
                    (box_heat_capacity p) (box_wall_mass_kg p)) (\<lambda>ti.
     (let r1 = r\<lparr>battery_conv_to_box_inner_energy := battery_conv_to_box_inner_energy r + q\<rparr>;
          r2 = r1\<lparr>battery_net_energy := battery_net_energy r1 + - q\<rparr>;
          r3 = r2\<lparr>box_inner_conv_to_battery_energy := box_inner_conv_to_battery_energy r2 + - q\<rparr>;
          r4 = r3\<lparr>box_inner_net_energy := box_inner_net_energy r3 + q\<rparr>
      in Inr (s\<lparr>battery_temp_c := tb, box_inner_temp_c := ti\<rparr>, r4))))))"

text \<open>Battery to inner wall, radiation between the enclosed surfaces.\<close>

definition radi_phase :: "'a jit_params_scheme \<Rightarrow> state \<times> row \<Rightarrow> (state \<times> row) result" where
  "radi_phase p = (\<lambda>(s, r).
     bind_result (calculate_inner_radiative_heat_flow (total_battery_area p) (total_box_area p)
                    (battery_emissivity p) (box_inner_emissivity p)
                    (battery_temp_c s) (box_inner_temp_c s) (bucket_period_seconds p)) (\<lambda>q.
     bind_result (calc_change_in_temperature_c (battery_temp_c s) (- q)
                    (battery_heat_capacity p) (battery_mass_kg p)) (\<lambda>tb.
     bind_result (calc_change_in_temperature_c (box_inner_temp_c s) q
                    (box_heat_capacity p) (box_wall_mass_kg p)) (\<lambda>ti.
     (let r1 = r\<lparr>battery_radi_to_box_inner_energy := battery_radi_to_box_inner_energy r + q\<rparr>;
          r2 = r1\<lparr>battery_net_energy := battery_net_energy r1 + - q\<rparr>;
          r3 = r2\<lparr>box_inner_radi_to_battery_energy := box_inner_radi_to_battery_energy r2 + - q\<rparr>;
          r4 = r3\<lparr>box_inner_net_energy := box_inner_net_energy r3 + q\<rparr>
      in Inr (s\<lparr>battery_temp_c := tb, box_inner_temp_c := ti\<rparr>, r4))))))"

text \<open>Inner wall to outer wall, conduction through the composite wall.\<close>

definition wall_phase :: "'a jit_params_scheme \<Rightarrow> state \<times> row \<Rightarrow> (state \<times> row) result" where
  "wall_phase p = (\<lambda>(s, r).
     bind_result (calculate_heat_energy_flow (box_inner_temp_c s) (box_outer_temp_c s)
                    (box_composite_conductive_resistance p) (bucket_period_seconds p)) (\<lambda>q.
     (let r1 = r\<lparr>box_inner_to_box_outer_energy := box_inner_to_box_outer_energy r + q\<rparr>;
          r2 = r1\<lparr>box_inner_net_energy := box_inner_net_energy r1 + - q\<rparr>;
          r3 = r2\<lparr>box_outer_to_box_inner_energy := box_outer_to_box_inner_energy r2 + - q\<rparr>;
          r4 = r3\<lparr>box_outer_net_energy := box_outer_net_energy r3 + q\<rparr>
      in bind_result (calc_change_in_temperature_c (box_inner_temp_c s) (- q)
                        (box_heat_capacity p) (box_wall_mass_kg p)) (\<lambda>ti.
         bind_result (calc_change_in_temperature_c (box_outer_temp_c s) q
                        (box_heat_capacity p) (box_wall_mass_kg p)) (\<lambda>tout.
         Inr (s\<lparr>box_inner_temp_c := ti, box_outer_temp_c := tout\<rparr>, r4))))))"

text \<open>Outer wall to the environment: convection, conduction and radiation.\<close>

definition env_phase :: "'a jit_params_scheme \<Rightarrow> state \<times> row \<Rightarrow> (state \<times> row) result" where
  "env_phase p = (\<lambda>(s, r).
     (let ambient_temperature = amb_temp r
      in bind_result (calculate_heat_energy_flow (box_outer_temp_c s) ambient_temperature
                        (box_outer_convective_resistance p) (bucket_period_seconds p)) (\<lambda>q_conv.
         bind_result (calculate_heat_energy_flow (box_outer_temp_c s) ambient_temperature
                        (box_outer_conductive_resistance p) (bucket_period_seconds p)) (\<lambda>q_cond.
         (let q_radi = calculate_outer_radiative_heat_flow (total_box_area p)
                         (box_outer_emissivity p) (box_outer_temp_c s) ambient_temperature
                         (bucket_period_seconds p);
              q_total = q_conv + q_cond + q_radi
          in bind_result (calc_change_in_temperature_c (box_outer_temp_c s) (- q_total)
                            (box_heat_capacity p) (box_wall_mass_kg p)) (\<lambda>tout.
             (let r1 = r\<lparr>box_outer_conv_to_environment_energy :=
                            box_outer_conv_to_environment_energy r + q_conv\<rparr>;
                  r2 = r1\<lparr>box_outer_conv_from_environment_energy :=
                             box_outer_conv_from_environment_energy r1 + - q_conv\<rparr>;
                  r3 = r2\<lparr>box_outer_cond_to_environment_energy :=
                             box_outer_cond_to_environment_energy r2 + q_cond\<rparr>;
                  r4 = r3\<lparr>box_outer_cond_from_environment_energy :=
                             box_outer_cond_from_environment_energy r3 + - q_cond\<rparr>;
                  r5 = r4\<lparr>box_outer_radi_to_environment_energy :=
                             box_outer_radi_to_environment_energy r4 + q_radi\<rparr>;
                  r6 = r5\<lparr>box_outer_radi_from_environment_energy :=
                             box_outer_radi_from_environment_energy r5 + - q_radi\<rparr>;
                  r7 = r6\<lparr>box_outer_net_energy := box_outer_net_energy r6 + q_total\<rparr>
              in Inr (s\<lparr>box_outer_temp_c := tout\<rparr>, r7))))))))"

text \<open>The three temperatures are stored at the end of the loop body.\<close>

definition record_phase :: "state \<times> row \<Rightarrow> state \<times> row" where
  "record_phase = (\<lambda>(s, r).
     (s, r\<lparr>battery_temp := battery_temp_c s, box_inner_temp := box_inner_temp_c s,
            box_outer_temp := box_outer_temp_c s\<rparr>))"

text \<open>One iteration of the loop: the state before it and the row at its index.\<close>

definition step :: "'a jit_params_scheme \<Rightarrow> state \<Rightarrow> row \<Rightarrow> (state \<times> row) result" where
  "step p s r =
     bind_result (heater_phase p (s, r)) (\<lambda>x1.
     bind_result (cond_phase p x1) (\<lambda>x2.
     bind_result (conv_phase p x2) (\<lambda>x3.
     bind_result (radi_phase p x3) (\<lambda>x4.
     bind_result (wall_phase p x4) (\<lambda>x5.
     bind_result (env_phase p x5) (\<lambda>x6.
     Inr (record_phase x6)))))))"

text \<open>
  The loop over the rows. Besides the rows it returns the loop variables as they are at
  the end of each iteration; the engine itself returns the rows only.
\<close>

fun jit_loop :: "'a jit_params_scheme \<Rightarrow> state \<Rightarrow> row list \<Rightarrow> (state \<times> row) list result" where
  "jit_loop p s [] = Inr []"
| "jit_loop p s (r # rs) =
     bind_result (step p s r) (\<lambda>(s', r').
     bind_result (jit_loop p s' rs) (\<lambda>xs. Inr ((s', r') # xs)))"

text \<open>
  The initial temperatures are index 0 of the three temperature arrays; on empty arrays
  that read is Python's IndexError.
\<close>

definition initial_state :: "row \<Rightarrow> state" where
  "initial_state r0 =
     \<lparr> battery_temp_c = battery_temp r0, box_inner_temp_c = box_inner_temp r0,
       box_outer_temp_c = box_outer_temp r0, heater_on = False, heater_counter = 0 \<rparr>"

definition jit_trace :: "'a jit_params_scheme \<Rightarrow> row list \<Rightarrow> (state \<times> row) list result" where
  "jit_trace p rows =
     bind_result (list_index rows 0) (\<lambda>r0. jit_loop p (initial_state r0) rows)"

definition jit_battery_energy_flow_model :: "'a jit_params_scheme \<Rightarrow> row list \<Rightarrow> row list result" where
  "jit_battery_energy_flow_model p rows =
     bind_result (jit_trace p rows) (\<lambda>xs. Inr (map snd xs))"

subsection \<open>Staging the arrays and running the engine\<close>

text \<open>
  The input frame of \<^verbatim>\<open>calculate_net_energy_flows\<close>, one record per sample. The frame
  is taken to have the column \<^verbatim>\<open>Energy_Use_kWh\<close>, as the frames built by
  \<^verbatim>\<open>TMY_Data\<close> from a load do.
\<close>

record tmy_row =
  Datetime :: nat
  Ambient_Temperature_C :: real
  Relative_Humidity_Perc :: real
  Energy_Use_kWh :: real

text \<open>
  Index \<open>i\<close> of every array before the engine runs: the temperatures hold the first
  ambient sample, the tallies are 0.0, and both \<^verbatim>\<open>battery_losses_input\<close> and
  \<^verbatim>\<open>battery_net_energy\<close> are copies of the column \<^verbatim>\<open>Battery_Losses_Input_J\<close>.
\<close>

definition initial_row :: "real \<Rightarrow> real \<Rightarrow> tmy_row \<Rightarrow> row" where
  "initial_row initial_temperature losses_perc t =
     (let Battery_Losses_Input_J = Energy_Use_kWh t * 3600000 * losses_perc
      in \<lparr> datetime_temp = Datetime t,
           amb_temp = Ambient_Temperature_C t,
           humidity = Relative_Humidity_Perc t,
           battery_temp = initial_temperature,
           box_inner_temp = initial_temperature,
           box_outer_temp = initial_temperature,
           battery_heater_input = 0,
           battery_losses_input = Battery_Losses_Input_J,
           battery_net_energy = Battery_Losses_Input_J,
           battery_cond_to_box_inner_energy = 0,
           battery_conv_to_box_inner_energy = 0,
           battery_radi_to_box_inner_energy = 0,
           heater_to_battery_energy = 0,
           heater_to_box_inner_energy = 0,
           box_inner_net_energy = 0,
           box_inner_cond_to_battery_energy = 0,
           box_inner_conv_to_battery_energy = 0,
           box_inner_radi_to_battery_energy = 0,
           box_inner_to_box_outer_energy = 0,
           box_outer_net_energy = 0,
           box_outer_to_box_inner_energy = 0,
           box_outer_cond_to_environment_energy = 0,
           box_outer_conv_to_environment_energy = 0,
           box_outer_radi_to_environment_energy = 0,
           box_outer_cond_from_environment_energy = 0,
           box_outer_conv_from_environment_energy = 0,
           box_outer_radi_from_environment_energy = 0 \<rparr>)"

definition engine_params :: "'a flow_args_scheme \<Rightarrow> network \<Rightarrow> jit_params" where
  "engine_params a n =
     \<lparr> bucket_period_seconds = bucket_period_seconds a,
       battery_mass_kg = battery_mass_kg a,
       battery_heat_capacity = battery_heat_capacity a,
       heater_threshold_temp_c = heater_threshold_temp_c a,
       use_heater = use_heater a,
       heater_battery_transfer = heater_battery_transfer a,
       heater_time_minutes = heater_time_minutes a,
       battery_emissivity = battery_emissivity a,
       box_inner_emissivity = box_inner_emissivity a,
       box_outer_emissivity = box_outer_emissivity a,
       battery_throughput_losses = battery_throughput_losses a,
       total_battery_area = net_total_battery_area n,
       box_wall_mass_kg = net_box_wall_mass_kg n,
       box_heat_capacity = net_box_heat_capacity n,
       total_box_area = net_total_box_area n,
       battery_conductive_resistance = net_battery_conductive_resistance n,
       battery_convective_resistance = net_battery_convective_resistance n,
       box_composite_conductive_resistance = net_box_composite_conductive_resistance n,
       box_outer_conductive_resistance = net_box_outer_conductive_resistance n,
       box_outer_convective_resistance = net_box_outer_convective_resistance n,
       heater_power_j = heater_power_w a * bucket_period_seconds a \<rparr>"

definition calculate_net_energy_flows ::
  "areas_fn \<Rightarrow> 'a flow_args_scheme \<Rightarrow> tmy_row list \<Rightarrow> row list result" where
  "calculate_net_energy_flows areas a tmy_data_df =
     bind_result (calculate_battery_box_parameters areas (battery_length a) (battery_width a)
                    (battery_height a) (box_length a) (box_width a) (box_height a)
                    (battery_transfer_array a) (box_transfer_array a) (material_list a)) (\<lambda>n.
     bind_result (list_index tmy_data_df 0) (\<lambda>t0.
     (let initial_temperature = Ambient_Temperature_C t0
      in jit_battery_energy_flow_model (engine_params a n)
           (map (initial_row initial_temperature (battery_losses_perc a)) tmy_data_df))))"

section \<open>Concrete configurations used in the evaluations below\<close>

text \<open>
  The scalar arguments of the repository's \<^verbatim>\<open>main.py\<close> (36 kg battery, 30 W heater,
  threshold 5 degrees, 5 minutes minimum on-time, one-minute buckets), with a thermal
  network of plausible size.
\<close>

definition example_params :: jit_params where
  "example_params =
     \<lparr> bucket_period_seconds = 60, battery_mass_kg = 36, battery_heat_capacity = 1000,
       heater_threshold_temp_c = 5, use_heater = True, heater_battery_transfer = 0.8,
       heater_time_minutes = 5, battery_emissivity = 0.9, box_inner_emissivity = 0.9,
       box_outer_emissivity = 0.9, battery_throughput_losses = 0.03,
       total_battery_area = 1.5, box_wall_mass_kg = 10, box_heat_capacity = 1500,
       total_box_area = 2, battery_conductive_resistance = 0.5,
       battery_convective_resistance = 0.4, box_composite_conductive_resistance = 0.25,
       box_outer_conductive_resistance = 0.5, box_outer_convective_resistance = 0.2,
       heater_power_j = 1800 \<rparr>"

text \<open>A sample of the input frame: ambient temperature \<open>a\<close>, 0.01 kWh used in the minute.\<close>

definition example_sample :: "real \<Rightarrow> tmy_row" where
  "example_sample a =
     \<lparr> Datetime = 0, Ambient_Temperature_C = a, Relative_Humidity_Perc = 80,
       Energy_Use_kWh = 0.01 \<rparr>"

text \<open>A heater that is ON with two counted steps, the inner wall below the threshold.\<close>

definition retrigger_state :: state where
  "retrigger_state =
     \<lparr> battery_temp_c = 6, box_inner_temp_c = 4, box_outer_temp_c = 3,
       heater_on = True, heater_counter = 2 \<rparr>"

text \<open>
  Two layers in the documented layout (thickness, conductivity, heat capacity, density,
  emissivity), a single layer of 2 cm and its half, and areas summing to a box area of 2.
\<close>

definition example_layers :: "pyval list" where
  "example_layers = [PyTuple [0.01, 0.04, 1300, 50, 0.9], PyTuple [0.02, 0.12, 1700, 600, 0.9]]"

definition single_layer :: pyval where
  "single_layer = PyTuple [0.02, 0.04, 1300, 50, 0.9]"

definition half_layer :: pyval where
  "half_layer = PyTuple [0.01, 0.04, 1300, 50, 0.9]"

definition example_areas :: areas_fn where
  "example_areas = (\<lambda>bl bw bh xl xw xh ba xa. Inr (0.54, 1.44, 1.82, 0.7, 1.3))"

definition example_network :: "pyval list \<Rightarrow> network result" where
  "example_network ms =
     calculate_battery_box_parameters example_areas 0.9 0.6 0.3 1 0.7 0.4 [] [] ms"

text \<open>The divisors of one loop iteration, other than the battery-conductive resistance.\<close>

definition divisors_ok :: "'a jit_params_scheme \<Rightarrow> bool" where
  "divisors_ok p \<longleftrightarrow>
     battery_heat_capacity p * battery_mass_kg p \<noteq> 0 \<and>
     box_heat_capacity p * box_wall_mass_kg p \<noteq> 0 \<and>
     battery_convective_resistance p \<noteq> 0 \<and>
     battery_emissivity p \<noteq> 0 \<and> total_box_area p \<noteq> 0 \<and> box_inner_emissivity p \<noteq> 0 \<and>
     1 / battery_emissivity p
       + total_battery_area p / total_box_area p * (1 / box_inner_emissivity p - 1) \<noteq> 0 \<and>
     box_composite_conductive_resistance p \<noteq> 0 \<and>
     box_outer_convective_resistance p \<noteq> 0 \<and>
     box_outer_conductive_resistance p \<noteq> 0"

text \<open>A state above the threshold with the heater OFF.\<close>

definition warm_state :: state where
  "warm_state =
     \<lparr> battery_temp_c = 12, box_inner_temp_c = 10, box_outer_temp_c = 8,
       heater_on = False, heater_counter = 0 \<rparr>"

text \<open>
  The staged arrays for two samples, 10 degrees and then 0 degrees, and the outer-wall
  part of the ledger: the flow from the inner wall, the three flows to the environment
  and the net tally.
\<close>

definition cold_snap :: "row list" where
  "cold_snap = map (initial_row 10 0.03) [example_sample 10, example_sample 0]"

definition outer_ledger :: "row \<Rightarrow> real \<times> real \<times> real \<times> real \<times> real" where
  "outer_ledger r =
     (box_inner_to_box_outer_energy r, box_outer_cond_to_environment_energy r,
      box_outer_conv_to_environment_energy r, box_outer_radi_to_environment_energy r,
      box_outer_net_energy r)"

text \<open>
  Overwriting the humidity of a row, of a state and row, and of an input sample.
\<close>

definition set_humidity :: "real \<Rightarrow> state \<times> row \<Rightarrow> state \<times> row" where
  "set_humidity h = (\<lambda>(s, r). (s, r\<lparr>humidity := h\<rparr>))"

definition erase_humidity :: "row \<Rightarrow> row" where
  "erase_humidity r = r\<lparr>humidity := 0\<rparr>"

definition erase_input_humidity :: "tmy_row \<Rightarrow> tmy_row" where
  "erase_input_humidity t = t\<lparr>Relative_Humidity_Perc := 0\<rparr>"

text \<open>The keyword arguments of \<^verbatim>\<open>main.py\<close>, with the two example layers.\<close>

definition example_args :: flow_args where
  "example_args =
     \<lparr> bucket_period_seconds = 60, battery_mass_kg = 36, battery_heat_capacity = 1000,
       heater_threshold_temp_c = 5, use_heater = True, heater_battery_transfer = 0.8,
       heater_time_minutes = 5, battery_emissivity = 0.9, box_inner_emissivity = 0.9,
       box_outer_emissivity = 0.9, battery_throughput_losses = 0.03,
       box_length = 1, box_width = 0.7, box_height = 0.4,
       battery_length = 0.9, battery_width = 0.6, battery_height = 0.3,
       battery_losses_perc = 0.03, heater_power_w = 30,
       battery_transfer_array = [0, 1, 1, 1, 1, 1], box_transfer_array = [0, 1, 1, 1, 1, 1],
       material_list = example_layers \<rparr>"

text \<open>
  Two loop positions with the same state and the same ambient sample, and the residual of
  each net tally against the recorded flows of its node: the tally minus (flows in minus
  flows out).
\<close>

definition same_state_amb :: "state \<times> row \<Rightarrow> state \<times> row \<Rightarrow> bool" where
  "same_state_amb x y \<longleftrightarrow> fst x = fst y \<and> amb_temp (snd x) = amb_temp (snd y)"

definition battery_residual :: "row \<Rightarrow> real" where
  "battery_residual r =
     battery_net_energy r
     - ((battery_losses_input r + heater_to_battery_energy r)
        - (battery_cond_to_box_inner_energy r + battery_conv_to_box_inner_energy r
           + battery_radi_to_box_inner_energy r))"

definition inner_wall_residual :: "row \<Rightarrow> real" where
  "inner_wall_residual r =
     box_inner_net_energy r
     - ((heater_to_box_inner_energy r + battery_cond_to_box_inner_energy r
         + battery_conv_to_box_inner_energy r + battery_radi_to_box_inner_energy r)
        - box_inner_to_box_outer_energy r)"

definition outer_wall_residual :: "row \<Rightarrow> real" where
  "outer_wall_residual r =
     box_outer_net_energy r
     - (box_inner_to_box_outer_energy r
        - (box_outer_cond_to_environment_energy r + box_outer_conv_to_environment_energy r
           + box_outer_radi_to_environment_energy r))"

definition tallies :: "row \<Rightarrow> real \<times> real \<times> real \<times> real \<times> real" where
  "tallies r =
     (battery_residual r, inner_wall_residual r,
      outer_wall_residual r
        - 2 * (box_outer_cond_to_environment_energy r + box_outer_conv_to_environment_energy r
               + box_outer_radi_to_environment_energy r),
      battery_losses_input r, heater_to_battery_energy r)"

text \<open>
  All three temperatures of a state within a band, and the staged arrays for four samples
  at 5 degrees, the heater threshold.
\<close>

definition within_band :: "real \<Rightarrow> real \<Rightarrow> state \<Rightarrow> bool" where
  "within_band lo hi s \<longleftrightarrow>
     lo \<le> battery_temp_c s \<and> battery_temp_c s \<le> hi \<and>
     lo \<le> box_inner_temp_c s \<and> box_inner_temp_c s \<le> hi \<and>
     lo \<le> box_outer_temp_c s \<and> box_outer_temp_c s \<le> hi"

definition cold_start :: "row list" where
  "cold_start =
     map (initial_row 5 0.03)
       [example_sample 5, example_sample 5, example_sample 5, example_sample 5]"

section \<open>Basic facts\<close>

lemma bind_result_Inr [simp]: "bind_result (Inr x) f = f x"
  by (simp add: bind_result_def)

lemma bind_result_Inl [simp]: "bind_result (Inl e) f = Inl e"
  by (simp add: bind_result_def)

lemma bind_result_eq_Inr:
  "bind_result m f = Inr y \<longleftrightarrow> (\<exists>x. m = Inr x \<and> f x = Inr y)"
  by (cases m) simp_all

lemmas flow_defs = calculate_heat_energy_flow_def calc_change_in_temperature_c_def
  calculate_inner_radiative_heat_flow_def py_div_def

lemmas builder_defs = calculate_battery_box_parameters_def select_layers_def read_layer_def
  list_index_def calculate_conductive_resistance_def calculate_convective_resistance_def
  calculate_composite_conductive_resistance_def py_div_def Let_def

subsection \<open>The flow phases leave the heater alone\<close>

lemma cond_phase_heater:
  "cond_phase p (s, r) = Inr (s', r') \<Longrightarrow>
     heater_on s' = heater_on s \<and> heater_counter s' = heater_counter s"
  by (auto simp: cond_phase_def flow_defs Let_def split: if_splits)

lemma conv_phase_heater:
  "conv_phase p (s, r) = Inr (s', r') \<Longrightarrow>
     heater_on s' = heater_on s \<and> heater_counter s' = heater_counter s"
  by (auto simp: conv_phase_def flow_defs Let_def split: if_splits)

lemma radi_phase_heater:
  "radi_phase p (s, r) = Inr (s', r') \<Longrightarrow>
     heater_on s' = heater_on s \<and> heater_counter s' = heater_counter s"
  by (auto simp: radi_phase_def flow_defs Let_def split: if_splits)

lemma wall_phase_heater:
  "wall_phase p (s, r) = Inr (s', r') \<Longrightarrow>
     heater_on s' = heater_on s \<and> heater_counter s' = heater_counter s"
  by (auto simp: wall_phase_def flow_defs Let_def split: if_splits)

lemma env_phase_heater:
  "env_phase p (s, r) = Inr (s', r') \<Longrightarrow>
     heater_on s' = heater_on s \<and> heater_counter s' = heater_counter s"
  by (auto simp: env_phase_def flow_defs Let_def split: if_splits)

lemma heater_inject_heater:
  "heater_inject p (s, r) = Inr (s', r') \<Longrightarrow>
     heater_on s' = heater_on s \<and>
     heater_counter s' = heater_counter s + (if use_heater p \<and> heater_on s then 1 else 0)"
  by (auto simp: heater_inject_def flow_defs Let_def split: if_splits)

text \<open>A successful iteration, phase by phase.\<close>

lemma step_phases:
  assumes "step p s r = Inr (s', r')"
  obtains s1 r1 s2 r2 s3 r3 s4 r4 s5 r5 s6 r6 where
    "heater_inject p (heater_trigger p (heater_dwell p s), r) = Inr (s1, r1)"
    "cond_phase p (s1, r1) = Inr (s2, r2)"
    "conv_phase p (s2, r2) = Inr (s3, r3)"
    "radi_phase p (s3, r3) = Inr (s4, r4)"
    "wall_phase p (s4, r4) = Inr (s5, r5)"
    "env_phase p (s5, r5) = Inr (s6, r6)"
    "(s', r') = record_phase (s6, r6)"
  using assms by (auto simp: step_def heater_phase_def bind_result_eq_Inr)

text \<open>The heater variables after an iteration depend on the controller alone.\<close>

lemma step_heater:
  assumes "step p s r = Inr (s', r')"
  shows "heater_on s' = heater_on (heater_trigger p (heater_dwell p s))"
    and "heater_counter s' = heater_counter (heater_trigger p (heater_dwell p s))
           + (if use_heater p \<and> heater_on (heater_trigger p (heater_dwell p s)) then 1 else 0)"
proof -
  from assms obtain s1 r1 s2 r2 s3 r3 s4 r4 s5 r5 s6 r6 where
    h: "heater_inject p (heater_trigger p (heater_dwell p s), r) = Inr (s1, r1)"
    and c: "cond_phase p (s1, r1) = Inr (s2, r2)"
    and v: "conv_phase p (s2, r2) = Inr (s3, r3)"
    and d: "radi_phase p (s3, r3) = Inr (s4, r4)"
    and w: "wall_phase p (s4, r4) = Inr (s5, r5)"
    and e: "env_phase p (s5, r5) = Inr (s6, r6)"
    and f: "(s', r') = record_phase (s6, r6)"
    by (rule step_phases)
  have "heater_on s' = heater_on s6" "heater_counter s' = heater_counter s6"
    using f by (simp_all add: record_phase_def)
  with heater_inject_heater[OF h] cond_phase_heater[OF c] conv_phase_heater[OF v]
    radi_phase_heater[OF d] wall_phase_heater[OF w] env_phase_heater[OF e]
  show "heater_on s' = heater_on (heater_trigger p (heater_dwell p s))"
    and "heater_counter s' = heater_counter (heater_trigger p (heater_dwell p s))
           + (if use_heater p \<and> heater_on (heater_trigger p (heater_dwell p s)) then 1 else 0)"
    by simp_all
qed

subsection \<open>What a successful phase returns\<close>

lemma heater_inject_Inr:
  assumes "heater_inject p (s, r) = Inr (s', r')"
  shows "if use_heater p \<and> heater_on s then
           battery_heat_capacity p * battery_mass_kg p \<noteq> 0 \<and>
           box_heat_capacity p * box_wall_mass_kg p \<noteq> 0 \<and>
           s' = s\<lparr>battery_temp_c := battery_temp_c s
                     + (battery_losses_input r + heater_power_j p * battery_throughput_losses p
                        + heater_power_j p * heater_battery_transfer p)
                       / (battery_heat_capacity p * battery_mass_kg p),
                   box_inner_temp_c := box_inner_temp_c s
                     + heater_power_j p * (1 - heater_battery_transfer p)
                       / (box_heat_capacity p * box_wall_mass_kg p),
                   heater_counter := heater_counter s + 1\<rparr> \<and>
           r' = r\<lparr>battery_heater_input := battery_heater_input r + heater_power_j p,
                   battery_losses_input := battery_losses_input r
                     + heater_power_j p * battery_throughput_losses p,
                   battery_net_energy := battery_net_energy r
                     + (battery_losses_input r + heater_power_j p * battery_throughput_losses p
                        + heater_power_j p * heater_battery_transfer p),
                   box_inner_net_energy := box_inner_net_energy r
                     + heater_power_j p * (1 - heater_battery_transfer p),
                   heater_to_battery_energy := heater_to_battery_energy r
                     + heater_power_j p * heater_battery_transfer p,
                   heater_to_box_inner_energy := heater_to_box_inner_energy r
                     + heater_power_j p * (1 - heater_battery_transfer p)\<rparr>
         else s' = s \<and> r' = r"
  using assms by (auto simp: heater_inject_def flow_defs Let_def split: if_splits)

lemma cond_phase_Inr:
  assumes "cond_phase p (s, r) = Inr (s', r')"
  defines "q \<equiv> (battery_temp_c s - box_inner_temp_c s) / battery_conductive_resistance p
                 * bucket_period_seconds p"
  shows "if heater_threshold_temp_c p < box_inner_temp_c s then
           battery_conductive_resistance p \<noteq> 0 \<and>
           s' = s\<lparr>battery_temp_c := battery_temp_c s
                     + - q / (battery_heat_capacity p * battery_mass_kg p),
                   box_inner_temp_c := box_inner_temp_c s
                     + q / (box_heat_capacity p * box_wall_mass_kg p)\<rparr> \<and>
           r' = r\<lparr>battery_cond_to_box_inner_energy := battery_cond_to_box_inner_energy r + q,
                   battery_net_energy := battery_net_energy r + - q,
                   box_inner_cond_to_battery_energy := box_inner_cond_to_battery_energy r + - q,
                   box_inner_net_energy := box_inner_net_energy r + q\<rparr>
         else s' = s \<and> r' = r"
  using assms by (auto simp: cond_phase_def flow_defs Let_def split: if_splits)

lemma conv_phase_Inr:
  assumes "conv_phase p (s, r) = Inr (s', r')"
  defines "q \<equiv> (battery_temp_c s - box_inner_temp_c s) / battery_convective_resistance p
                 * bucket_period_seconds p"
  shows "s' = s\<lparr>battery_temp_c := battery_temp_c s
                     + - q / (battery_heat_capacity p * battery_mass_kg p),
                   box_inner_temp_c := box_inner_temp_c s
                     + q / (box_heat_capacity p * box_wall_mass_kg p)\<rparr>"
    and "r' = r\<lparr>battery_conv_to_box_inner_energy := battery_conv_to_box_inner_energy r + q,
                   battery_net_energy := battery_net_energy r + - q,
                   box_inner_conv_to_battery_energy := box_inner_conv_to_battery_energy r + - q,
                   box_inner_net_energy := box_inner_net_energy r + q\<rparr>"
    and "battery_convective_resistance p \<noteq> 0"
    and "battery_heat_capacity p * battery_mass_kg p \<noteq> 0"
    and "box_heat_capacity p * box_wall_mass_kg p \<noteq> 0"
  using assms by (auto simp: conv_phase_def flow_defs Let_def split: if_splits)

text \<open>The radiative flow between battery and inner wall, where its divisors are not zero.\<close>

lemma radi_phase_Inr:
  assumes "radi_phase p (s, r) = Inr (s', r')"
  defines "q \<equiv> stefan_boltzmann_constant
                 * (1 / (1 / battery_emissivity p
                         + total_battery_area p / total_box_area p
                           * (1 / box_inner_emissivity p - 1)))
                 * total_battery_area p
                 * ((battery_temp_c s + 273.15) ^ 4 - (box_inner_temp_c s + 273.15) ^ 4)
                 * bucket_period_seconds p"
  shows "s' = s\<lparr>battery_temp_c := battery_temp_c s
                     + - q / (battery_heat_capacity p * battery_mass_kg p),
                   box_inner_temp_c := box_inner_temp_c s
                     + q / (box_heat_capacity p * box_wall_mass_kg p)\<rparr>"
    and "r' = r\<lparr>battery_radi_to_box_inner_energy := battery_radi_to_box_inner_energy r + q,
                   battery_net_energy := battery_net_energy r + - q,
                   box_inner_radi_to_battery_energy := box_inner_radi_to_battery_energy r + - q,
                   box_inner_net_energy := box_inner_net_energy r + q\<rparr>"
  using assms by (auto simp: radi_phase_def flow_defs Let_def split: if_splits)

lemma wall_phase_Inr:
  assumes "wall_phase p (s, r) = Inr (s', r')"
  defines "q \<equiv> (box_inner_temp_c s - box_outer_temp_c s) / box_composite_conductive_resistance p
                 * bucket_period_seconds p"
  shows "s' = s\<lparr>box_inner_temp_c := box_inner_temp_c s
                     + - q / (box_heat_capacity p * box_wall_mass_kg p),
                   box_outer_temp_c := box_outer_temp_c s
                     + q / (box_heat_capacity p * box_wall_mass_kg p)\<rparr>"
    and "r' = r\<lparr>box_inner_to_box_outer_energy := box_inner_to_box_outer_energy r + q,
                   box_inner_net_energy := box_inner_net_energy r + - q,
                   box_outer_to_box_inner_energy := box_outer_to_box_inner_energy r + - q,
                   box_outer_net_energy := box_outer_net_energy r + q\<rparr>"
  using assms by (auto simp: wall_phase_def flow_defs Let_def split: if_splits)

lemma env_phase_Inr:
  assumes "env_phase p (s, r) = Inr (s', r')"
  defines "q_conv \<equiv> (box_outer_temp_c s - amb_temp r) / box_outer_convective_resistance p
                 * bucket_period_seconds p"
    and "q_cond \<equiv> (box_outer_temp_c s - amb_temp r) / box_outer_conductive_resistance p
                 * bucket_period_seconds p"
    and "q_radi \<equiv> calculate_outer_radiative_heat_flow (total_box_area p) (box_outer_emissivity p)
                     (box_outer_temp_c s) (amb_temp r) (bucket_period_seconds p)"
  shows "s' = s\<lparr>box_outer_temp_c := box_outer_temp_c s
                     + - (q_conv + q_cond + q_radi) / (box_heat_capacity p * box_wall_mass_kg p)\<rparr>"
    and "r' = r\<lparr>box_outer_conv_to_environment_energy :=
                     box_outer_conv_to_environment_energy r + q_conv,
                   box_outer_conv_from_environment_energy :=
                     box_outer_conv_from_environment_energy r + - q_conv,
                   box_outer_cond_to_environment_energy :=
                     box_outer_cond_to_environment_energy r + q_cond,
                   box_outer_cond_from_environment_energy :=
                     box_outer_cond_from_environment_energy r + - q_cond,
                   box_outer_radi_to_environment_energy :=
                     box_outer_radi_to_environment_energy r + q_radi,
                   box_outer_radi_from_environment_energy :=
                     box_outer_radi_from_environment_energy r + - q_radi,
                   box_outer_net_energy := box_outer_net_energy r + (q_conv + q_cond + q_radi)\<rparr>"
  using assms by (auto simp: env_phase_def flow_defs Let_def split: if_splits)



lemmas phase_defs = step_def heater_phase_def heater_dwell_def heater_trigger_def heater_inject_def
  cond_phase_def conv_phase_def radi_phase_def wall_phase_def env_phase_def record_phase_def
  calculate_outer_radiative_heat_flow_def stefan_boltzmann_constant_def

lemmas example_defs = example_params_def initial_state_def initial_row_def example_sample_def

subsection \<open>An iteration returns when no divisor is zero\<close>

lemma heater_inject_total:
  "divisors_ok p \<Longrightarrow> \<exists>y. heater_inject p x = Inr y"
  by (cases x) (auto simp: heater_inject_def divisors_ok_def flow_defs Let_def)

lemma cond_phase_total:
  "divisors_ok p \<Longrightarrow> battery_conductive_resistance p \<noteq> 0 \<Longrightarrow> \<exists>y. cond_phase p x = Inr y"
  by (cases x) (auto simp: cond_phase_def divisors_ok_def flow_defs Let_def)

lemma conv_phase_total:
  "divisors_ok p \<Longrightarrow> \<exists>y. conv_phase p x = Inr y"
  by (cases x) (auto simp: conv_phase_def divisors_ok_def flow_defs Let_def)

lemma radi_phase_total:
  "divisors_ok p \<Longrightarrow> \<exists>y. radi_phase p x = Inr y"
  by (cases x) (auto simp: radi_phase_def divisors_ok_def flow_defs Let_def)

lemma wall_phase_total:
  "divisors_ok p \<Longrightarrow> \<exists>y. wall_phase p x = Inr y"
  by (cases x) (auto simp: wall_phase_def divisors_ok_def flow_defs Let_def)

lemma env_phase_total:
  "divisors_ok p \<Longrightarrow> \<exists>y. env_phase p x = Inr y"
  by (cases x) (auto simp: env_phase_def divisors_ok_def flow_defs Let_def)

lemma step_total:
  assumes ok: "divisors_ok p" and rc: "battery_conductive_resistance p \<noteq> 0"
  shows "\<exists>s' r'. step p s r = Inr (s', r')"
proof -
  obtain x1 where 1: "heater_phase p (s, r) = Inr x1"
    using heater_inject_total[OF ok, of "(heater_trigger p (heater_dwell p s), r)"]
    by (auto simp: heater_phase_def)
  obtain x2 where 2: "cond_phase p x1 = Inr x2"
    using cond_phase_total[OF ok rc] by blast
  obtain x3 where 3: "conv_phase p x2 = Inr x3"
    using conv_phase_total[OF ok] by blast
  obtain x4 where 4: "radi_phase p x3 = Inr x4"
    using radi_phase_total[OF ok] by blast
  obtain x5 where 5: "wall_phase p x4 = Inr x5"
    using wall_phase_total[OF ok] by blast
  obtain x6 where 6: "env_phase p x5 = Inr x6"
    using env_phase_total[OF ok] by blast
  have "step p s r = Inr (record_phase x6)"
    by (simp add: step_def 1 2 3 4 5 6)
  then show ?thesis
    by (cases "record_phase x6") auto
qed

lemma jit_loop_total:
  assumes ok: "divisors_ok p" and rc: "battery_conductive_resistance p \<noteq> 0"
  shows "\<exists>xs. jit_loop p s rs = Inr xs"
proof (induction rs arbitrary: s)
  case Nil
  show ?case by simp
next
  case (Cons r rs)
  obtain s' r' where st: "step p s r = Inr (s', r')"
    using step_total[OF ok rc] by blast
  obtain xs where "jit_loop p s' rs = Inr xs"
    using Cons.IH by blast
  with st show ?case by simp
qed

lemma example_params_ok:
  "divisors_ok example_params" "battery_conductive_resistance example_params \<noteq> 0"
  by (simp_all add: divisors_ok_def example_params_def)

lemma example_flows_return:
  "\<not> isl (calculate_net_energy_flows example_areas example_args (t # ts))"
proof -
  obtain n where n: "calculate_battery_box_parameters example_areas (battery_length example_args)
      (battery_width example_args) (battery_height example_args) (box_length example_args)
      (box_width example_args) (box_height example_args) (battery_transfer_array example_args)
      (box_transfer_array example_args) (material_list example_args) = Inr n"
    and ok: "divisors_ok (engine_params example_args n)"
      "battery_conductive_resistance (engine_params example_args n) \<noteq> 0"
    by (simp add: example_args_def example_areas_def example_layers_def builder_defs
        divisors_ok_def engine_params_def)
  obtain xs where "jit_loop (engine_params example_args n)
      (initial_state (initial_row (Ambient_Temperature_C t) (battery_losses_perc example_args) t))
      (map (initial_row (Ambient_Temperature_C t) (battery_losses_perc example_args)) (t # ts))
        = Inr xs"
    using jit_loop_total[OF ok] by blast
  then show ?thesis
    by (simp add: calculate_net_energy_flows_def n list_index_def jit_battery_energy_flow_model_def
        jit_trace_def Let_def)
qed

section \<open>Heat-flow primitives\<close>

text \<open>
  C8. For positive thickness, conductivity and area the conductive resistance is
  thickness / (conductivity * area). For 0.01 m, 0.04 W/mK and 1 square metre it is
  0.25 K/W, and a temperature difference of 10 degrees over that resistance during 60 s
  moves (10 / 0.25) * 60 = 2400 J.
\<close>

theorem conductive_resistance_and_flow:
  "(0 < thickness_m \<and> 0 < thermal_conductivity \<and> 0 < area_m2 \<longrightarrow>
      calculate_conductive_resistance thickness_m thermal_conductivity area_m2
        = Inr (thickness_m / (thermal_conductivity * area_m2)))
   \<and> calculate_conductive_resistance 0.01 0.04 1 = Inr 0.25
   \<and> (t_hot - t_cold = 10 \<longrightarrow>
        calculate_heat_energy_flow t_hot t_cold 0.25 60 = Inr ((10 / 0.25) * 60)
        \<and> calculate_heat_energy_flow t_hot t_cold 0.25 60 = Inr 2400)"
  by (simp add: calculate_conductive_resistance_def calculate_heat_energy_flow_def py_div_def)

theorem conductive_resistance_and_flow_witness:
  "(0::real) < 0.02 \<and> (0::real) < 0.5 \<and> (0::real) < 3
   \<and> calculate_conductive_resistance 0.02 0.5 3 = Inr (0.02 / (0.5 * 3))
   \<and> (25::real) - 15 = 10
   \<and> calculate_heat_energy_flow 25 15 0.25 60 = Inr 2400"
  using conductive_resistance_and_flow [of "0.02" "0.5" 3 25 15] by simp

section \<open>The thermal network builder on concrete material lists\<close>

text \<open>
  C4. For a two-layer list in the documented layout the wall mass should be
  (box area / 2) * density * thickness summed over the two layers, and the wall heat
  capacity the mean of the two heat capacities. The builder reads index 1 of a layer
  (the conductivity) as its thickness: for the layers (0.01, 0.04, 1300, 50, 0.9) and
  (0.02, 0.12, 1700, 600, 0.9) and a box area of 2 it returns the mass
  50 * 0.04 + 600 * 0.12 = 74 where the densities and thicknesses give
  50 * 0.01 + 600 * 0.02 = 12.5; the heat capacity is the mean, 1500.
\<close>

theorem wall_mass_reads_conductivity:
  "map_sum id (\<lambda>n. (net_total_box_area n, net_box_wall_mass_kg n, net_box_heat_capacity n))
     (example_network example_layers) = Inr (2, 74, 1500)
   \<and> (2 / 2 * 50 * 0.01 + 2 / 2 * 600 * 0.02 :: real) = 12.5"
  by (simp add: example_network_def example_areas_def example_layers_def builder_defs)

text \<open>
  C5. A material list with one layer should give the network of two half-thickness layers
  without failing. The builder fails on it: a list of length one raises IndexError at
  \<^verbatim>\<open>material_list[1]\<close>, and a list whose second entry is \<^verbatim>\<open>None\<close> or an empty tuple
  passes that test and then fails in the composite resistance, which unpacks every
  entry. The list of the two half layers gives a network.
\<close>

theorem single_layer_list_fails:
  "example_network [single_layer] = Inl IndexError
   \<and> example_network [single_layer, PyNone] = Inl TypeError
   \<and> example_network [single_layer, PyTuple []] = Inl ValueError
   \<and> \<not> isl (example_network [half_layer, half_layer])"
  by (simp add: example_network_def example_areas_def single_layer_def half_layer_def
      builder_defs)

section \<open>The heater controller\<close>

text \<open>
  C3, as stated: when the heater is already ON and the inner wall is at or below the
  threshold again, the trigger leaves the heater state, and so the counter, unchanged.
  It does not: in the state \<open>retrigger_state\<close> the heater is ON with counter 2 and the
  inner wall is at 4 degrees, under the threshold of 5, and the trigger sets the counter
  to 0.
\<close>

theorem retrigger_counterexample:
  "heater_on retrigger_state
   \<and> box_inner_temp_c retrigger_state \<le> heater_threshold_temp_c example_params
   \<and> use_heater example_params
   \<and> heater_counter retrigger_state = 2
   \<and> heater_counter (heater_trigger example_params retrigger_state) = 0
   \<and> heater_trigger example_params retrigger_state \<noteq> retrigger_state"
  by (simp add: retrigger_state_def example_params_def heater_trigger_def)

text \<open>
  C3, amended: whenever the inner wall is at or below the threshold at the start of a
  timestep and the heater is enabled, the trigger sets the heater ON and the counter to
  0, whatever they were; after the injection of that timestep the counter is 1. The
  minimum-on duration is thus counted from the latest timestep that started at or below
  the threshold.
\<close>

theorem retrigger_restarts_counter:
  assumes "use_heater p" and "box_inner_temp_c s \<le> heater_threshold_temp_c p"
  shows "heater_trigger p s = s\<lparr>heater_on := True, heater_counter := 0\<rparr>
         \<and> (\<forall>r s' r'. step p s r = Inr (s', r') \<longrightarrow> heater_on s' \<and> heater_counter s' = 1)"
proof -
  have t: "heater_trigger p s' = s'\<lparr>heater_on := True, heater_counter := 0\<rparr>"
    if "box_inner_temp_c s' \<le> heater_threshold_temp_c p" for s'
    using that assms(1) by (simp add: heater_trigger_def)
  have d: "box_inner_temp_c (heater_dwell p s) = box_inner_temp_c s"
    by (simp add: heater_dwell_def)
  have "heater_on s' \<and> heater_counter s' = 1" if "step p s r = Inr (s', r')" for r s' r'
    using step_heater[OF that] t[of "heater_dwell p s"] d assms by simp
  with t[OF assms(2)] show ?thesis by blast
qed

theorem retrigger_restarts_counter_witness:
  "use_heater example_params
   \<and> box_inner_temp_c retrigger_state \<le> heater_threshold_temp_c example_params
   \<and> heater_trigger example_params retrigger_state
       = retrigger_state\<lparr>heater_on := True, heater_counter := 0\<rparr>
   \<and> (\<exists>s' r'. step example_params retrigger_state (initial_row 4 0.03 (example_sample 4))
                  = Inr (s', r') \<and> heater_on s' \<and> heater_counter s' = 1)"
proof -
  have u: "use_heater example_params"
    by (simp add: example_params_def)
  have b: "box_inner_temp_c retrigger_state \<le> heater_threshold_temp_c example_params"
    by (simp add: example_params_def retrigger_state_def)
  obtain s' r' where
    st: "step example_params retrigger_state (initial_row 4 0.03 (example_sample 4)) = Inr (s', r')"
    using step_total[OF example_params_ok] by blast
  from retrigger_restarts_counter[OF u b] st u b show ?thesis
    by blast
qed

section \<open>The flows of one timestep\<close>

text \<open>
  C6. In every timestep the conduction from the battery to the inner wall is computed
  from the temperatures left by the heater phase, tallied in its two ledger entries and
  in the two net tallies, and applied to the battery and inner-wall temperatures, if the
  inner-wall temperature after the heater phase is strictly above the threshold;
  otherwise the conduction phase changes nothing and the two ledger entries of the
  timestep stay zero. The result of the timestep is the result of the later phases run
  from there: the convection is computed from the temperatures after the conduction, the
  net tallies of the timestep contain the conducted energy, and the battery and
  inner-wall temperatures at the end of the timestep are those after the heater phase
  moved by the recorded flows, the conducted energy among them.
\<close>

theorem conduction_only_above_threshold:
  assumes run: "step p s r = Inr (s', r')"
    and zero: "battery_cond_to_box_inner_energy r = 0" "box_inner_cond_to_battery_energy r = 0"
      "battery_conv_to_box_inner_energy r = 0" "battery_radi_to_box_inner_energy r = 0"
      "box_inner_to_box_outer_energy r = 0"
  shows "\<exists>s1 r1 s2 r2.
           heater_phase p (s, r) = Inr (s1, r1) \<and> cond_phase p (s1, r1) = Inr (s2, r2) \<and>
           bind_result (conv_phase p (s2, r2)) (\<lambda>x3.
           bind_result (radi_phase p x3) (\<lambda>x4.
           bind_result (wall_phase p x4) (\<lambda>x5.
           bind_result (env_phase p x5) (\<lambda>x6.
           Inr (record_phase x6))))) = Inr (s', r') \<and>
           (let q = (battery_temp_c s1 - box_inner_temp_c s1) / battery_conductive_resistance p
                      * bucket_period_seconds p
            in if heater_threshold_temp_c p < box_inner_temp_c s1 then
                 battery_cond_to_box_inner_energy r' = q \<and>
                 box_inner_cond_to_battery_energy r' = - q \<and>
                 battery_net_energy r2 = battery_net_energy r1 - q \<and>
                 box_inner_net_energy r2 = box_inner_net_energy r1 + q \<and>
                 battery_temp_c s2
                   = battery_temp_c s1 - q / (battery_heat_capacity p * battery_mass_kg p) \<and>
                 box_inner_temp_c s2
                   = box_inner_temp_c s1 + q / (box_heat_capacity p * box_wall_mass_kg p)
               else
                 battery_cond_to_box_inner_energy r' = 0 \<and>
                 box_inner_cond_to_battery_energy r' = 0 \<and> s2 = s1 \<and> r2 = r1) \<and>
           battery_conv_to_box_inner_energy r'
             = (battery_temp_c s2 - box_inner_temp_c s2) / battery_convective_resistance p
                 * bucket_period_seconds p \<and>
           battery_net_energy r'
             = battery_net_energy r1 - battery_cond_to_box_inner_energy r'
               - battery_conv_to_box_inner_energy r' - battery_radi_to_box_inner_energy r' \<and>
           box_inner_net_energy r'
             = box_inner_net_energy r1 + battery_cond_to_box_inner_energy r'
               + battery_conv_to_box_inner_energy r' + battery_radi_to_box_inner_energy r'
               - box_inner_to_box_outer_energy r' \<and>
           battery_temp_c s'
             = battery_temp_c s1
               - battery_cond_to_box_inner_energy r' / (battery_heat_capacity p * battery_mass_kg p)
               - battery_conv_to_box_inner_energy r' / (battery_heat_capacity p * battery_mass_kg p)
               - battery_radi_to_box_inner_energy r' / (battery_heat_capacity p * battery_mass_kg p) \<and>
           box_inner_temp_c s'
             = box_inner_temp_c s1
               + battery_cond_to_box_inner_energy r' / (box_heat_capacity p * box_wall_mass_kg p)
               + battery_conv_to_box_inner_energy r' / (box_heat_capacity p * box_wall_mass_kg p)
               + battery_radi_to_box_inner_energy r' / (box_heat_capacity p * box_wall_mass_kg p)
               - box_inner_to_box_outer_energy r' / (box_heat_capacity p * box_wall_mass_kg p) \<and>
           battery_temp r' = battery_temp_c s' \<and> box_inner_temp r' = box_inner_temp_c s'"
proof -
  from run obtain s1 r1 s2 r2 s3 r3 s4 r4 s5 r5 s6 r6 where
    h: "heater_inject p (heater_trigger p (heater_dwell p s), r) = Inr (s1, r1)"
    and c: "cond_phase p (s1, r1) = Inr (s2, r2)"
    and v: "conv_phase p (s2, r2) = Inr (s3, r3)"
    and d: "radi_phase p (s3, r3) = Inr (s4, r4)"
    and w: "wall_phase p (s4, r4) = Inr (s5, r5)"
    and e: "env_phase p (s5, r5) = Inr (s6, r6)"
    and f: "(s', r') = record_phase (s6, r6)"
    by (rule step_phases)
  have hp: "heater_phase p (s, r) = Inr (s1, r1)"
    using h by (simp add: heater_phase_def)
  have chain: "bind_result (conv_phase p (s2, r2)) (\<lambda>x3.
           bind_result (radi_phase p x3) (\<lambda>x4.
           bind_result (wall_phase p x4) (\<lambda>x5.
           bind_result (env_phase p x5) (\<lambda>x6.
           Inr (record_phase x6))))) = Inr (s', r')"
    using run by (simp add: step_def hp c)
  have r1: "battery_cond_to_box_inner_energy r1 = 0" "box_inner_cond_to_battery_energy r1 = 0"
    "battery_conv_to_box_inner_energy r1 = 0" "battery_radi_to_box_inner_energy r1 = 0"
    "box_inner_to_box_outer_energy r1 = 0"
    using heater_inject_Inr[OF h] zero by (auto split: if_splits)
  have r2: "battery_conv_to_box_inner_energy r2 = 0" "battery_radi_to_box_inner_energy r2 = 0"
    "box_inner_to_box_outer_energy r2 = 0"
    using cond_phase_Inr[OF c] r1 by (auto split: if_splits)
  have later: "battery_cond_to_box_inner_energy r' = battery_cond_to_box_inner_energy r2"
    "box_inner_cond_to_battery_energy r' = box_inner_cond_to_battery_energy r2"
    using f by (simp_all add: record_phase_def conv_phase_Inr(2)[OF v] radi_phase_Inr(2)[OF d]
        wall_phase_Inr(2)[OF w] env_phase_Inr(2)[OF e])
  have conv3: "battery_conv_to_box_inner_energy r3
             = (battery_temp_c s2 - box_inner_temp_c s2) / battery_convective_resistance p
                 * bucket_period_seconds p"
    "battery_net_energy r3 = battery_net_energy r2 - battery_conv_to_box_inner_energy r3"
    "box_inner_net_energy r3 = box_inner_net_energy r2 + battery_conv_to_box_inner_energy r3"
    "battery_radi_to_box_inner_energy r3 = 0" "box_inner_to_box_outer_energy r3 = 0"
    using r2 by (simp_all add: conv_phase_Inr(2)[OF v])
  have radi4: "battery_conv_to_box_inner_energy r4 = battery_conv_to_box_inner_energy r3"
    "battery_net_energy r4 = battery_net_energy r3 - battery_radi_to_box_inner_energy r4"
    "box_inner_net_energy r4 = box_inner_net_energy r3 + battery_radi_to_box_inner_energy r4"
    "box_inner_to_box_outer_energy r4 = 0"
    using conv3 by (simp_all add: radi_phase_Inr(2)[OF d])
  have wall5: "battery_conv_to_box_inner_energy r5 = battery_conv_to_box_inner_energy r4"
    "battery_radi_to_box_inner_energy r5 = battery_radi_to_box_inner_energy r4"
    "battery_net_energy r5 = battery_net_energy r4"
    "box_inner_net_energy r5 = box_inner_net_energy r4 - box_inner_to_box_outer_energy r5"
    using radi4 by (simp_all add: wall_phase_Inr(2)[OF w])
  have fin: "battery_conv_to_box_inner_energy r' = battery_conv_to_box_inner_energy r5"
    "battery_radi_to_box_inner_energy r' = battery_radi_to_box_inner_energy r5"
    "battery_net_energy r' = battery_net_energy r5"
    "box_inner_net_energy r' = box_inner_net_energy r5"
    "box_inner_to_box_outer_energy r' = box_inner_to_box_outer_energy r5"
    using f by (simp_all add: record_phase_def env_phase_Inr(2)[OF e])
  have c2: "battery_net_energy r2 = battery_net_energy r1 - battery_cond_to_box_inner_energy r2"
    "box_inner_net_energy r2 = box_inner_net_energy r1 + battery_cond_to_box_inner_energy r2"
    using cond_phase_Inr[OF c] r1 by (auto split: if_splits)
  have conv': "battery_conv_to_box_inner_energy r'
             = (battery_temp_c s2 - box_inner_temp_c s2) / battery_convective_resistance p
                 * bucket_period_seconds p"
    using fin wall5 radi4 conv3 by simp
  have net': "battery_net_energy r'
             = battery_net_energy r1 - battery_cond_to_box_inner_energy r'
               - battery_conv_to_box_inner_energy r' - battery_radi_to_box_inner_energy r'"
    using fin wall5 radi4 conv3(2) c2 later by simp
  have inet': "box_inner_net_energy r'
             = box_inner_net_energy r1 + battery_cond_to_box_inner_energy r'
               + battery_conv_to_box_inner_energy r' + battery_radi_to_box_inner_energy r'
               - box_inner_to_box_outer_energy r'"
    using fin wall5 radi4 conv3(3) c2 later by simp
  have gate: "(let q = (battery_temp_c s1 - box_inner_temp_c s1) / battery_conductive_resistance p
                      * bucket_period_seconds p
            in if heater_threshold_temp_c p < box_inner_temp_c s1 then
                 battery_cond_to_box_inner_energy r' = q \<and>
                 box_inner_cond_to_battery_energy r' = - q \<and>
                 battery_net_energy r2 = battery_net_energy r1 - q \<and>
                 box_inner_net_energy r2 = box_inner_net_energy r1 + q \<and>
                 battery_temp_c s2
                   = battery_temp_c s1 - q / (battery_heat_capacity p * battery_mass_kg p) \<and>
                 box_inner_temp_c s2
                   = box_inner_temp_c s1 + q / (box_heat_capacity p * box_wall_mass_kg p)
               else
                 battery_cond_to_box_inner_energy r' = 0 \<and>
                 box_inner_cond_to_battery_energy r' = 0 \<and> s2 = s1 \<and> r2 = r1)"
    using cond_phase_Inr[OF c] r1(1,2) later
    by (auto simp: Let_def split: if_splits)
  have t2: "battery_temp_c s2
              = battery_temp_c s1
                - battery_cond_to_box_inner_energy r2
                  / (battery_heat_capacity p * battery_mass_kg p)"
    "box_inner_temp_c s2
              = box_inner_temp_c s1
                + battery_cond_to_box_inner_energy r2
                  / (box_heat_capacity p * box_wall_mass_kg p)"
    using cond_phase_Inr[OF c] r1(1) by (auto split: if_splits)
  have t3: "battery_temp_c s3
              = battery_temp_c s2
                - battery_conv_to_box_inner_energy r3
                  / (battery_heat_capacity p * battery_mass_kg p)"
    "box_inner_temp_c s3
              = box_inner_temp_c s2
                + battery_conv_to_box_inner_energy r3
                  / (box_heat_capacity p * box_wall_mass_kg p)"
    by (simp_all add: conv_phase_Inr(1)[OF v] conv3(1))
  have q4: "battery_radi_to_box_inner_energy r4
              = stefan_boltzmann_constant
                 * (1 / (1 / battery_emissivity p
                         + total_battery_area p / total_box_area p
                           * (1 / box_inner_emissivity p - 1)))
                 * total_battery_area p
                 * ((battery_temp_c s3 + 273.15) ^ 4 - (box_inner_temp_c s3 + 273.15) ^ 4)
                 * bucket_period_seconds p"
    using conv3(4) by (simp add: radi_phase_Inr(2)[OF d])
  have t4: "battery_temp_c s4
              = battery_temp_c s3
                - battery_radi_to_box_inner_energy r4
                  / (battery_heat_capacity p * battery_mass_kg p)"
    "box_inner_temp_c s4
              = box_inner_temp_c s3
                + battery_radi_to_box_inner_energy r4
                  / (box_heat_capacity p * box_wall_mass_kg p)"
    unfolding q4 by (simp_all add: radi_phase_Inr(1)[OF d])
  have q5: "box_inner_to_box_outer_energy r5
              = (box_inner_temp_c s4 - box_outer_temp_c s4)
                  / box_composite_conductive_resistance p * bucket_period_seconds p"
    using radi4(4) by (simp add: wall_phase_Inr(2)[OF w])
  have t5: "battery_temp_c s5 = battery_temp_c s4"
    "box_inner_temp_c s5
              = box_inner_temp_c s4
                - box_inner_to_box_outer_energy r5
                  / (box_heat_capacity p * box_wall_mass_kg p)"
    unfolding q5 by (simp_all add: wall_phase_Inr(1)[OF w])
  have t6: "battery_temp_c s' = battery_temp_c s5" "box_inner_temp_c s' = box_inner_temp_c s5"
    "battery_temp r' = battery_temp_c s'" "box_inner_temp r' = box_inner_temp_c s'"
    using f by (simp_all add: record_phase_def env_phase_Inr(1)[OF e])
  have tb': "battery_temp_c s'
             = battery_temp_c s1
               - battery_cond_to_box_inner_energy r' / (battery_heat_capacity p * battery_mass_kg p)
               - battery_conv_to_box_inner_energy r' / (battery_heat_capacity p * battery_mass_kg p)
               - battery_radi_to_box_inner_energy r' / (battery_heat_capacity p * battery_mass_kg p)"
    using t6(1) t5(1) t4(1) t3(1) t2(1) fin(1,2) wall5(1,2) radi4(1) later(1) by simp
  have ti': "box_inner_temp_c s'
             = box_inner_temp_c s1
               + battery_cond_to_box_inner_energy r' / (box_heat_capacity p * box_wall_mass_kg p)
               + battery_conv_to_box_inner_energy r' / (box_heat_capacity p * box_wall_mass_kg p)
               + battery_radi_to_box_inner_energy r' / (box_heat_capacity p * box_wall_mass_kg p)
               - box_inner_to_box_outer_energy r' / (box_heat_capacity p * box_wall_mass_kg p)"
    using t6(2) t5(2) t4(2) t3(2) t2(2) fin(1,2,5) wall5(1,2) radi4(1) later(1) by simp
  from hp c chain gate conv' net' inet' tb' ti' t6(3,4) show ?thesis
    by blast
qed


theorem conduction_only_above_threshold_witness:
  "\<exists>s' r' s2 r2.
     step example_params warm_state (initial_row 8 0.03 (example_sample 8)) = Inr (s', r') \<and>
     cond_phase example_params (warm_state, initial_row 8 0.03 (example_sample 8)) = Inr (s2, r2) \<and>
     heater_threshold_temp_c example_params < box_inner_temp_c warm_state \<and>
     battery_cond_to_box_inner_energy r' = 240 \<and> box_inner_cond_to_battery_energy r' = - 240 \<and>
     battery_temp_c s2 = 12 - 240 / 36000 \<and> box_inner_temp_c s2 = 10 + 240 / 15000 \<and>
     battery_conv_to_box_inner_energy r' = 1483 / 5 \<and>
     battery_net_energy r'
       = 1080 - 240 - 1483 / 5 - battery_radi_to_box_inner_energy r' \<and>
     battery_temp_c s'
       = 12 - 240 / 36000 - (1483 / 5) / 36000 - battery_radi_to_box_inner_energy r' / 36000 \<and>
     box_inner_temp_c s'
       = 10 + 240 / 15000 + (1483 / 5) / 15000 + battery_radi_to_box_inner_energy r' / 15000
         - box_inner_to_box_outer_energy r' / 15000 \<and>
     battery_temp r' = battery_temp_c s' \<and> box_inner_temp r' = box_inner_temp_c s'"
proof -
  define r0 where "r0 = initial_row 8 0.03 (example_sample 8)"
  obtain s' r' where st: "step example_params warm_state r0 = Inr (s', r')"
    using step_total[OF example_params_ok] by blast
  have z: "battery_cond_to_box_inner_energy r0 = 0" "box_inner_cond_to_battery_energy r0 = 0"
    "battery_conv_to_box_inner_energy r0 = 0" "battery_radi_to_box_inner_energy r0 = 0"
    "box_inner_to_box_outer_energy r0 = 0"
    by (simp_all add: r0_def initial_row_def Let_def)
  have n: "battery_net_energy r0 = 1080"
    by (simp add: r0_def initial_row_def example_sample_def Let_def)
  have hp: "heater_phase example_params (warm_state, r0) = Inr (warm_state, r0)"
    by (simp add: heater_phase_def heater_dwell_def heater_trigger_def heater_inject_def
        warm_state_def example_params_def)
  have w: "battery_temp_c warm_state = 12" "box_inner_temp_c warm_state = 10"
    by (simp_all add: warm_state_def)
  have p: "heater_threshold_temp_c example_params = 5"
    "battery_conductive_resistance example_params = 0.5"
    "battery_convective_resistance example_params = 0.4"
    "bucket_period_seconds example_params = 60"
    "battery_heat_capacity example_params * battery_mass_kg example_params = 36000"
    "box_heat_capacity example_params * box_wall_mass_kg example_params = 15000"
    by (simp_all add: example_params_def)
  have "\<exists>s2 r2.
     cond_phase example_params (warm_state, r0) = Inr (s2, r2) \<and>
     heater_threshold_temp_c example_params < box_inner_temp_c warm_state \<and>
     battery_cond_to_box_inner_energy r' = 240 \<and> box_inner_cond_to_battery_energy r' = - 240 \<and>
     battery_temp_c s2 = 12 - 240 / 36000 \<and> box_inner_temp_c s2 = 10 + 240 / 15000 \<and>
     battery_conv_to_box_inner_energy r' = 1483 / 5 \<and>
     battery_net_energy r'
       = 1080 - 240 - 1483 / 5 - battery_radi_to_box_inner_energy r' \<and>
     battery_temp_c s'
       = 12 - 240 / 36000 - (1483 / 5) / 36000 - battery_radi_to_box_inner_energy r' / 36000 \<and>
     box_inner_temp_c s'
       = 10 + 240 / 15000 + (1483 / 5) / 15000 + battery_radi_to_box_inner_energy r' / 15000
         - box_inner_to_box_outer_energy r' / 15000 \<and>
     battery_temp r' = battery_temp_c s' \<and> box_inner_temp r' = box_inner_temp_c s'"
    using conduction_only_above_threshold[OF st z] hp
    by (auto simp: w p n Let_def; argo)
  with st show ?thesis
    unfolding r0_def by blast
qed

section \<open>Losses to the environment\<close>

text \<open>
  C7. In every timestep the conductive, convective and radiative flows from the outer
  wall to the environment are computed from one outer-wall temperature (the one left by
  the conduction through the wall) against the ambient sample of the timestep, the
  radiative one by the Stefan-Boltzmann law with the constant 5.67e-8, the outer
  emissivity, the box area and both temperatures in Kelvin; each from-environment entry
  is the negation of the to-environment entry; and the outer-wall temperature is updated
  once, by the sum of the three flows.
\<close>

theorem environment_channels:
  assumes run: "step p s r = Inr (s', r')"
    and zero: "box_inner_to_box_outer_energy r = 0"
      "box_outer_cond_to_environment_energy r = 0" "box_outer_conv_to_environment_energy r = 0"
      "box_outer_radi_to_environment_energy r = 0" "box_outer_cond_from_environment_energy r = 0"
      "box_outer_conv_from_environment_energy r = 0" "box_outer_radi_from_environment_energy r = 0"
  shows "(let outer = box_outer_temp_c s + box_inner_to_box_outer_energy r'
                        / (box_heat_capacity p * box_wall_mass_kg p);
              q_cond = (outer - amb_temp r) / box_outer_conductive_resistance p
                         * bucket_period_seconds p;
              q_conv = (outer - amb_temp r) / box_outer_convective_resistance p
                         * bucket_period_seconds p;
              q_radi = 567 / 10000000000 * box_outer_emissivity p * total_box_area p
                         * ((outer + 273.15) ^ 4 - (amb_temp r + 273.15) ^ 4)
                         * bucket_period_seconds p
          in box_outer_cond_to_environment_energy r' = q_cond \<and>
             box_outer_conv_to_environment_energy r' = q_conv \<and>
             box_outer_radi_to_environment_energy r' = q_radi \<and>
             box_outer_cond_from_environment_energy r' = - box_outer_cond_to_environment_energy r' \<and>
             box_outer_conv_from_environment_energy r' = - box_outer_conv_to_environment_energy r' \<and>
             box_outer_radi_from_environment_energy r' = - box_outer_radi_to_environment_energy r' \<and>
             box_outer_temp_c s' = outer + - (q_conv + q_cond + q_radi)
                                     / (box_heat_capacity p * box_wall_mass_kg p) \<and>
             box_outer_temp r' = box_outer_temp_c s')"
proof -
  from run obtain s1 r1 s2 r2 s3 r3 s4 r4 s5 r5 s6 r6 where
    h: "heater_inject p (heater_trigger p (heater_dwell p s), r) = Inr (s1, r1)"
    and c: "cond_phase p (s1, r1) = Inr (s2, r2)"
    and v: "conv_phase p (s2, r2) = Inr (s3, r3)"
    and d: "radi_phase p (s3, r3) = Inr (s4, r4)"
    and w: "wall_phase p (s4, r4) = Inr (s5, r5)"
    and e: "env_phase p (s5, r5) = Inr (s6, r6)"
    and f: "(s', r') = record_phase (s6, r6)"
    by (rule step_phases)
  have o1: "box_outer_temp_c s1 = box_outer_temp_c s"
    using heater_inject_Inr[OF h] by (auto simp: heater_trigger_def heater_dwell_def split: if_splits)
  have o2: "box_outer_temp_c s2 = box_outer_temp_c s1"
    using cond_phase_Inr[OF c] by (auto split: if_splits)
  have o4: "box_outer_temp_c s4 = box_outer_temp_c s"
    using o1 o2 by (simp add: conv_phase_Inr(1)[OF v] radi_phase_Inr(1)[OF d])
  have a4: "amb_temp r5 = amb_temp r"
    using heater_inject_Inr[OF h] cond_phase_Inr[OF c]
    by (auto simp: conv_phase_Inr(2)[OF v] radi_phase_Inr(2)[OF d] wall_phase_Inr(2)[OF w]
        split: if_splits)
  have z1: "box_inner_to_box_outer_energy r1 = 0"
      "box_outer_cond_to_environment_energy r1 = 0" "box_outer_conv_to_environment_energy r1 = 0"
      "box_outer_radi_to_environment_energy r1 = 0" "box_outer_cond_from_environment_energy r1 = 0"
      "box_outer_conv_from_environment_energy r1 = 0" "box_outer_radi_from_environment_energy r1 = 0"
    using heater_inject_Inr[OF h] zero by (auto split: if_splits)
  have z2: "box_inner_to_box_outer_energy r2 = 0"
      "box_outer_cond_to_environment_energy r2 = 0" "box_outer_conv_to_environment_energy r2 = 0"
      "box_outer_radi_to_environment_energy r2 = 0" "box_outer_cond_from_environment_energy r2 = 0"
      "box_outer_conv_from_environment_energy r2 = 0" "box_outer_radi_from_environment_energy r2 = 0"
    using cond_phase_Inr[OF c] z1 by (auto split: if_splits)
  have z4: "box_inner_to_box_outer_energy r4 = 0"
      "box_outer_cond_to_environment_energy r4 = 0" "box_outer_conv_to_environment_energy r4 = 0"
      "box_outer_radi_to_environment_energy r4 = 0" "box_outer_cond_from_environment_energy r4 = 0"
      "box_outer_conv_from_environment_energy r4 = 0" "box_outer_radi_from_environment_energy r4 = 0"
    using z2 by (simp_all add: conv_phase_Inr(2)[OF v] radi_phase_Inr(2)[OF d])
  have w5: "box_outer_temp_c s5 = box_outer_temp_c s + box_inner_to_box_outer_energy r5
              / (box_heat_capacity p * box_wall_mass_kg p)"
    using o4 z4 by (simp add: wall_phase_Inr(1)[OF w] wall_phase_Inr(2)[OF w])
  have z5: "box_outer_cond_to_environment_energy r5 = 0" "box_outer_conv_to_environment_energy r5 = 0"
      "box_outer_radi_to_environment_energy r5 = 0" "box_outer_cond_from_environment_energy r5 = 0"
      "box_outer_conv_from_environment_energy r5 = 0" "box_outer_radi_from_environment_energy r5 = 0"
    using z4 by (simp_all add: wall_phase_Inr(2)[OF w])
  have i6: "box_inner_to_box_outer_energy r' = box_inner_to_box_outer_energy r5"
    using f by (simp add: record_phase_def env_phase_Inr(2)[OF e])
  show ?thesis
    using f w5 z5 a4 i6
    by (simp add: Let_def record_phase_def env_phase_Inr(1)[OF e] env_phase_Inr(2)[OF e]
        calculate_outer_radiative_heat_flow_def stefan_boltzmann_constant_def)
qed


theorem environment_channels_witness:
  "\<exists>s' r'.
     step example_params warm_state (initial_row 8 0.03 (example_sample 6)) = Inr (s', r') \<and>
     box_outer_cond_from_environment_energy r' = - box_outer_cond_to_environment_energy r' \<and>
     box_outer_conv_from_environment_energy r' = - box_outer_conv_to_environment_energy r' \<and>
     box_outer_radi_from_environment_energy r' = - box_outer_radi_to_environment_energy r' \<and>
     box_outer_cond_to_environment_energy r'
       = (8 + box_inner_to_box_outer_energy r' / 15000 - 6) / 0.5 * 60 \<and>
     box_outer_conv_to_environment_energy r'
       = (8 + box_inner_to_box_outer_energy r' / 15000 - 6) / 0.2 * 60 \<and>
     box_outer_radi_to_environment_energy r'
       = 567 / 10000000000 * 0.9 * 2
           * ((8 + box_inner_to_box_outer_energy r' / 15000 + 273.15) ^ 4 - (6 + 273.15) ^ 4)
           * 60 \<and>
     box_outer_temp_c s'
       = 8 + box_inner_to_box_outer_energy r' / 15000
         + - (box_outer_conv_to_environment_energy r' + box_outer_cond_to_environment_energy r'
              + box_outer_radi_to_environment_energy r') / 15000 \<and>
     box_outer_temp r' = box_outer_temp_c s'"
proof -
  define r0 where "r0 = initial_row 8 0.03 (example_sample 6)"
  obtain s' r' where st: "step example_params warm_state r0 = Inr (s', r')"
    using step_total[OF example_params_ok] by blast
  have z: "box_inner_to_box_outer_energy r0 = 0"
      "box_outer_cond_to_environment_energy r0 = 0" "box_outer_conv_to_environment_energy r0 = 0"
      "box_outer_radi_to_environment_energy r0 = 0" "box_outer_cond_from_environment_energy r0 = 0"
      "box_outer_conv_from_environment_energy r0 = 0" "box_outer_radi_from_environment_energy r0 = 0"
    by (simp_all add: r0_def initial_row_def Let_def)
  have a: "amb_temp r0 = 6"
    by (simp add: r0_def initial_row_def example_sample_def Let_def)
  have p: "box_outer_temp_c warm_state = 8"
    "box_heat_capacity example_params * box_wall_mass_kg example_params = 15000"
    "box_outer_conductive_resistance example_params = 0.5"
    "box_outer_convective_resistance example_params = 0.2"
    "box_outer_emissivity example_params = 0.9" "total_box_area example_params = 2"
    "bucket_period_seconds example_params = 60"
    by (simp_all add: warm_state_def example_params_def)
  note e = environment_channels[OF st z, unfolded Let_def a p]
  have "box_outer_cond_from_environment_energy r' = - box_outer_cond_to_environment_energy r' \<and>
     box_outer_conv_from_environment_energy r' = - box_outer_conv_to_environment_energy r' \<and>
     box_outer_radi_from_environment_energy r' = - box_outer_radi_to_environment_energy r' \<and>
     box_outer_cond_to_environment_energy r'
       = (8 + box_inner_to_box_outer_energy r' / 15000 - 6) / 0.5 * 60 \<and>
     box_outer_conv_to_environment_energy r'
       = (8 + box_inner_to_box_outer_energy r' / 15000 - 6) / 0.2 * 60 \<and>
     box_outer_radi_to_environment_energy r'
       = 567 / 10000000000 * 0.9 * 2
           * ((8 + box_inner_to_box_outer_energy r' / 15000 + 273.15) ^ 4 - (6 + 273.15) ^ 4)
           * 60 \<and>
     box_outer_temp_c s'
       = 8 + box_inner_to_box_outer_energy r' / 15000
         + - (box_outer_conv_to_environment_energy r' + box_outer_cond_to_environment_energy r'
              + box_outer_radi_to_environment_energy r') / 15000 \<and>
     box_outer_temp r' = box_outer_temp_c s'"
    using e by simp
  with st show ?thesis
    unfolding r0_def by blast
qed

section \<open>Energy tallies\<close>

text \<open>
  C1. In every timestep the net tally of a node should be the flows entering it minus
  the flows leaving it. For the outer wall the engine adds the total lost to the
  environment to the tally instead of subtracting it. With the samples 10 and 0 degrees
  the second timestep has no flow from the inner wall, loses 1200 J by conduction, 3000 J
  by convection and about 5273 J by radiation, and records their sum as the net energy
  of the outer wall, where the flows give its negation.
\<close>

theorem outer_net_energy_adds_the_losses:
  "map_sum id (map outer_ledger) (jit_battery_energy_flow_model example_params cold_snap)
     = Inr [(0, 0, 0, 0, 0),
            (0, 1200, 3000, 2636418286336023 / 500000000000,
             0 + (1200 + 3000 + 2636418286336023 / 500000000000))]
   \<and> (0 + (1200 + 3000 + 2636418286336023 / 500000000000) :: real)
       \<noteq> 0 - (1200 + 3000 + 2636418286336023 / 500000000000)"
  by (simp add: jit_battery_energy_flow_model_def jit_trace_def list_index_def cold_snap_def
      outer_ledger_def phase_defs flow_defs example_defs Let_def power_divide)


section \<open>Humidity\<close>

subsection \<open>No phase reads the humidity\<close>

lemma bind_result_map_sum:
  "bind_result (map_sum id g m) f = bind_result m (\<lambda>x. f (g x))"
  by (cases m) simp_all

lemma map_sum_bind_result:
  "map_sum id g (bind_result m f) = bind_result m (\<lambda>x. map_sum id g (f x))"
  by (cases m) simp_all

lemma heater_inject_humidity:
  "heater_inject p (s, r\<lparr>humidity := h\<rparr>) = map_sum id (set_humidity h) (heater_inject p (s, r))"
  by (simp add: heater_inject_def flow_defs Let_def set_humidity_def)

lemma cond_phase_humidity:
  "cond_phase p (set_humidity h x) = map_sum id (set_humidity h) (cond_phase p x)"
  by (cases x) (simp add: cond_phase_def flow_defs Let_def set_humidity_def)

lemma conv_phase_humidity:
  "conv_phase p (set_humidity h x) = map_sum id (set_humidity h) (conv_phase p x)"
  by (cases x) (simp add: conv_phase_def flow_defs Let_def set_humidity_def)

lemma radi_phase_humidity:
  "radi_phase p (set_humidity h x) = map_sum id (set_humidity h) (radi_phase p x)"
  by (cases x) (simp add: radi_phase_def flow_defs Let_def set_humidity_def)

lemma wall_phase_humidity:
  "wall_phase p (set_humidity h x) = map_sum id (set_humidity h) (wall_phase p x)"
  by (cases x) (simp add: wall_phase_def flow_defs Let_def set_humidity_def)

lemma env_phase_humidity:
  "env_phase p (set_humidity h x) = map_sum id (set_humidity h) (env_phase p x)"
  by (cases x) (simp add: env_phase_def flow_defs Let_def set_humidity_def)

lemma record_phase_humidity:
  "record_phase (set_humidity h x) = set_humidity h (record_phase x)"
  by (cases x) (simp add: record_phase_def set_humidity_def)

lemma step_humidity:
  "step p s (r\<lparr>humidity := h\<rparr>) = map_sum id (set_humidity h) (step p s r)"
  by (simp add: step_def heater_phase_def heater_inject_humidity bind_result_map_sum
      cond_phase_humidity conv_phase_humidity radi_phase_humidity wall_phase_humidity
      env_phase_humidity record_phase_humidity map_sum_bind_result)


lemma step_erase:
  "step p s (erase_humidity r) = map_sum id (\<lambda>(s', r'). (s', erase_humidity r')) (step p s r)"
proof -
  have "set_humidity 0 = (\<lambda>(s', r'). (s', erase_humidity r'))"
    by (simp add: set_humidity_def erase_humidity_def)
  then show ?thesis
    using step_humidity[of p s 0 r] by (simp add: erase_humidity_def)
qed

lemma erase_humidity_idem: "erase_humidity (erase_humidity r) = erase_humidity r"
  by (simp add: erase_humidity_def)

lemma jit_loop_erase:
  "map_sum id (map (\<lambda>(s', r'). (s', erase_humidity r'))) (jit_loop p s (map erase_humidity rs))
     = map_sum id (map (\<lambda>(s', r'). (s', erase_humidity r'))) (jit_loop p s rs)"
proof (induction rs arbitrary: s)
  case Nil
  show ?case by simp
next
  case (Cons r rs)
  show ?case
  proof (cases "step p s r")
    case (Inl e)
    then show ?thesis by (simp add: step_erase)
  next
    case (Inr x)
    obtain s' r' where x: "x = (s', r')" by (cases x)
    have st: "step p s (erase_humidity r) = Inr (s', erase_humidity r')"
      using Inr x by (simp add: step_erase)
    show ?thesis
      using Cons.IH[of s']
      by (cases "jit_loop p s' rs"; cases "jit_loop p s' (map erase_humidity rs)")
        (simp_all add: Inr x st erase_humidity_idem)
  qed
qed

lemma jit_model_erase:
  "map_sum id (map erase_humidity) (jit_battery_energy_flow_model p (map erase_humidity rows))
     = map_sum id (map erase_humidity) (jit_battery_energy_flow_model p rows)"
proof (cases rows)
  case Nil
  then show ?thesis
    by (simp add: jit_battery_energy_flow_model_def jit_trace_def list_index_def)
next
  case (Cons r0 rs)
  have i: "initial_state (erase_humidity r0) = initial_state r0"
    by (simp add: initial_state_def erase_humidity_def)
  have m: "map_sum id (map erase_humidity) (bind_result m (\<lambda>xs. Inr (map snd xs)))
             = map_sum id (map snd) (map_sum id (map (\<lambda>(s', r'). (s', erase_humidity r'))) m)"
    for m :: "(state \<times> row) list result"
    by (cases m) (simp_all add: case_prod_beta comp_def)
  have "map_sum id (map (\<lambda>(s', r'). (s', erase_humidity r')))
          (jit_loop p (initial_state r0) (map erase_humidity (r0 # rs)))
        = map_sum id (map (\<lambda>(s', r'). (s', erase_humidity r')))
          (jit_loop p (initial_state r0) (r0 # rs))"
    by (rule jit_loop_erase)
  then show ?thesis
    unfolding jit_battery_energy_flow_model_def m
    by (simp add: Cons jit_trace_def list_index_def i)
qed

lemma initial_row_erase:
  "initial_row T0 lp (erase_input_humidity t) = erase_humidity (initial_row T0 lp t)"
  by (simp add: initial_row_def erase_input_humidity_def erase_humidity_def Let_def)

lemma flows_erase:
  "map_sum id (map erase_humidity) (calculate_net_energy_flows areas a (map erase_input_humidity tmy))
     = map_sum id (map erase_humidity) (calculate_net_energy_flows areas a tmy)"
proof (cases "calculate_battery_box_parameters areas (battery_length a) (battery_width a)
                    (battery_height a) (box_length a) (box_width a) (box_height a)
                    (battery_transfer_array a) (box_transfer_array a) (material_list a)")
  case (Inl e)
  then show ?thesis by (simp add: calculate_net_energy_flows_def)
next
  case (Inr n)
  show ?thesis
  proof (cases tmy)
    case Nil
    then show ?thesis by (simp add: calculate_net_energy_flows_def Inr list_index_def)
  next
    case (Cons t0 ts)
    have a0: "Ambient_Temperature_C (erase_input_humidity t0) = Ambient_Temperature_C t0"
      by (simp add: erase_input_humidity_def)
    have "map (initial_row T0 lp) (map erase_input_humidity tmy)
            = map erase_humidity (map (initial_row T0 lp) tmy)" for T0 lp
      by (simp add: initial_row_erase comp_def)
    then show ?thesis
      using jit_model_erase
      by (simp add: calculate_net_energy_flows_def Inr Cons list_index_def a0 Let_def
          del: list.map map_map)
  qed
qed

text \<open>
  C9. Two input frames that differ in the relative-humidity column only give the same
  result in every other column (and fail alike when they fail): no temperature and no
  energy flow depends on the humidity.
\<close>

theorem humidity_has_no_influence:
  assumes "map erase_input_humidity tmy1 = map erase_input_humidity tmy2"
  shows "map_sum id (map erase_humidity) (calculate_net_energy_flows areas a tmy1)
           = map_sum id (map erase_humidity) (calculate_net_energy_flows areas a tmy2)"
  using flows_erase[of areas a tmy1] flows_erase[of areas a tmy2] assms by simp


theorem humidity_has_no_influence_witness:
  "map erase_input_humidity [example_sample 5, example_sample 4]
     = map erase_input_humidity [(example_sample 5)\<lparr>Relative_Humidity_Perc := 20\<rparr>,
                                 (example_sample 4)\<lparr>Relative_Humidity_Perc := 100\<rparr>]
   \<and> map_sum id (map erase_humidity)
         (calculate_net_energy_flows example_areas example_args [example_sample 5, example_sample 4])
       = map_sum id (map erase_humidity)
         (calculate_net_energy_flows example_areas example_args
            [(example_sample 5)\<lparr>Relative_Humidity_Perc := 20\<rparr>,
             (example_sample 4)\<lparr>Relative_Humidity_Perc := 100\<rparr>])
   \<and> \<not> isl (calculate_net_energy_flows example_areas example_args
               [example_sample 5, example_sample 4])"
proof -
  have e: "map erase_input_humidity [example_sample 5, example_sample 4]
     = map erase_input_humidity [(example_sample 5)\<lparr>Relative_Humidity_Perc := 20\<rparr>,
                                 (example_sample 4)\<lparr>Relative_Humidity_Perc := 100\<rparr>]"
    by (simp add: erase_input_humidity_def example_sample_def)
  from humidity_has_no_influence[OF e] e example_flows_return show ?thesis
    by blast
qed


section \<open>The net tallies against the recorded flows\<close>

lemmas tallies_defs = tallies_def battery_residual_def inner_wall_residual_def
  outer_wall_residual_def

lemma cond_phase_tallies:
  "cond_phase p (s, r) = Inr (s', r') \<Longrightarrow> tallies r' = tallies r"
  by (drule cond_phase_Inr) (auto simp: tallies_defs split: if_splits)

lemma conv_phase_tallies:
  "conv_phase p (s, r) = Inr (s', r') \<Longrightarrow> tallies r' = tallies r"
  by (drule conv_phase_Inr(2)) (simp add: tallies_defs)

lemma radi_phase_tallies:
  "radi_phase p (s, r) = Inr (s', r') \<Longrightarrow> tallies r' = tallies r"
  by (drule radi_phase_Inr(2)) (simp add: tallies_defs)

lemma wall_phase_tallies:
  "wall_phase p (s, r) = Inr (s', r') \<Longrightarrow> tallies r' = tallies r"
  by (drule wall_phase_Inr(2)) (simp add: tallies_defs)

lemma env_phase_tallies:
  "env_phase p (s, r) = Inr (s', r') \<Longrightarrow> tallies r' = tallies r"
  by (drule env_phase_Inr(2)) (simp add: tallies_defs)

lemma record_phase_tallies:
  "(s', r') = record_phase (s, r) \<Longrightarrow> tallies r' = tallies r"
  by (simp add: record_phase_def tallies_defs)

lemma heater_inject_tallies:
  assumes "heater_inject p (s, r) = Inr (s', r')"
  shows "tallies r' =
           (if use_heater p \<and> heater_on s then
              (battery_residual r + battery_losses_input r, inner_wall_residual r,
               outer_wall_residual r
                 - 2 * (box_outer_cond_to_environment_energy r
                        + box_outer_conv_to_environment_energy r
                        + box_outer_radi_to_environment_energy r),
               battery_losses_input r + heater_power_j p * battery_throughput_losses p,
               heater_to_battery_energy r + heater_power_j p * heater_battery_transfer p)
            else tallies r)"
  using heater_inject_Inr[OF assms] by (auto simp: tallies_defs split: if_splits)

lemma initial_row_tallies:
  "tallies (initial_row T0 lp t)
     = (0, 0, 0, Energy_Use_kWh t * 3600000 * lp, 0)"
  by (simp add: tallies_defs initial_row_def Let_def)

text \<open>The three net tallies of a timestep against the recorded flows.\<close>

lemma step_tallies:
  assumes run: "step p s (initial_row T0 lp t) = Inr (s', r')"
  shows "tallies r' =
           (if use_heater p \<and> heater_on s' then
              (Energy_Use_kWh t * 3600000 * lp, 0, 0,
               Energy_Use_kWh t * 3600000 * lp + heater_power_j p * battery_throughput_losses p,
               heater_power_j p * heater_battery_transfer p)
            else (0, 0, 0, Energy_Use_kWh t * 3600000 * lp, 0))"
proof -
  from run obtain s1 r1 s2 r2 s3 r3 s4 r4 s5 r5 s6 r6 where
    h: "heater_inject p (heater_trigger p (heater_dwell p s), initial_row T0 lp t) = Inr (s1, r1)"
    and c: "cond_phase p (s1, r1) = Inr (s2, r2)"
    and v: "conv_phase p (s2, r2) = Inr (s3, r3)"
    and d: "radi_phase p (s3, r3) = Inr (s4, r4)"
    and w: "wall_phase p (s4, r4) = Inr (s5, r5)"
    and e: "env_phase p (s5, r5) = Inr (s6, r6)"
    and f: "(s', r') = record_phase (s6, r6)"
    by (rule step_phases)
  have "tallies r' = tallies r1"
    using cond_phase_tallies[OF c] conv_phase_tallies[OF v] radi_phase_tallies[OF d]
      wall_phase_tallies[OF w] env_phase_tallies[OF e] record_phase_tallies[OF f]
    by simp
  also have "\<dots> = (if use_heater p \<and> heater_on s' then
              (Energy_Use_kWh t * 3600000 * lp, 0, 0,
               Energy_Use_kWh t * 3600000 * lp + heater_power_j p * battery_throughput_losses p,
               heater_power_j p * heater_battery_transfer p)
            else (0, 0, 0, Energy_Use_kWh t * 3600000 * lp, 0))"
    using heater_inject_tallies[OF h] initial_row_tallies[of T0 lp t] step_heater(1)[OF run]
    by (simp add: tallies_def)
  finally show ?thesis .
qed


section \<open>Battery throughput losses\<close>

subsection \<open>The flow phases read the ambient sample of a row and nothing else\<close>

lemma bind_result_rel:
  assumes "rel_sum (=) A m m'"
    and "\<And>x y. A x y \<Longrightarrow> rel_sum (=) B (f x) (g y)"
  shows "rel_sum (=) B (bind_result m f) (bind_result m' g)"
  using assms by (cases m; cases m') simp_all

lemma cond_phase_rel:
  "same_state_amb x y \<Longrightarrow> rel_sum (=) same_state_amb (cond_phase p x) (cond_phase p y)"
  by (cases x; cases y) (simp add: same_state_amb_def cond_phase_def flow_defs Let_def)

lemma conv_phase_rel:
  "same_state_amb x y \<Longrightarrow> rel_sum (=) same_state_amb (conv_phase p x) (conv_phase p y)"
  by (cases x; cases y) (simp add: same_state_amb_def conv_phase_def flow_defs Let_def)

lemma radi_phase_rel:
  "same_state_amb x y \<Longrightarrow> rel_sum (=) same_state_amb (radi_phase p x) (radi_phase p y)"
  by (cases x; cases y) (simp add: same_state_amb_def radi_phase_def flow_defs Let_def)

lemma wall_phase_rel:
  "same_state_amb x y \<Longrightarrow> rel_sum (=) same_state_amb (wall_phase p x) (wall_phase p y)"
  by (cases x; cases y) (simp add: same_state_amb_def wall_phase_def flow_defs Let_def)

lemma env_phase_rel:
  "same_state_amb x y \<Longrightarrow> rel_sum (=) same_state_amb (env_phase p x) (env_phase p y)"
  by (cases x; cases y) (simp add: same_state_amb_def env_phase_def flow_defs Let_def)

lemma record_phase_rel:
  "same_state_amb x y \<Longrightarrow> fst (record_phase x) = fst (record_phase y)"
  by (cases x; cases y) (simp add: same_state_amb_def record_phase_def)

lemma flows_rel:
  assumes "same_state_amb x y"
  shows "rel_sum (=) (\<lambda>u v. fst u = fst v)
           (bind_result (cond_phase p x) (\<lambda>x2.
            bind_result (conv_phase p x2) (\<lambda>x3.
            bind_result (radi_phase p x3) (\<lambda>x4.
            bind_result (wall_phase p x4) (\<lambda>x5.
            bind_result (env_phase p x5) (\<lambda>x6.
            Inr (record_phase x6)))))))
           (bind_result (cond_phase p y) (\<lambda>x2.
            bind_result (conv_phase p x2) (\<lambda>x3.
            bind_result (radi_phase p x3) (\<lambda>x4.
            bind_result (wall_phase p x4) (\<lambda>x5.
            bind_result (env_phase p x5) (\<lambda>x6.
            Inr (record_phase x6)))))))"
  by (intro bind_result_rel[where A = same_state_amb] cond_phase_rel conv_phase_rel
      radi_phase_rel wall_phase_rel env_phase_rel assms)
    (auto dest: record_phase_rel)

lemma rel_sum_fst_eq:
  "rel_sum (=) (\<lambda>u v. fst u = fst v) m m' \<Longrightarrow> map_sum id fst m = map_sum id fst m'"
  by (cases m; cases m') simp_all

lemma step_state_without_heater:
  assumes off: "\<not> (use_heater p \<and> heater_on (heater_trigger p (heater_dwell p s)))"
    and amb: "amb_temp r = amb_temp r2"
  shows "map_sum id fst (step p s r) = map_sum id fst (step p s r2)"
proof -
  have h: "heater_phase p (s, r') = Inr (heater_trigger p (heater_dwell p s), r')" for r'
    using off by (auto simp: heater_phase_def heater_inject_def)
  have "same_state_amb (heater_trigger p (heater_dwell p s), r)
          (heater_trigger p (heater_dwell p s), r2)"
    using amb by (simp add: same_state_amb_def)
  from flows_rel[OF this, of p] show ?thesis
    by (simp add: step_def h rel_sum_fst_eq)
qed


lemma initial_row_amb:
  "amb_temp (initial_row T0 lp (t\<lparr>Energy_Use_kWh := e\<rparr>)) = amb_temp (initial_row T0 lp t)"
  by (simp add: initial_row_def Let_def)

text \<open>
  C10. In a timestep whose heater is not ON at the injection, the temperatures and the
  heater state after the timestep do not depend on the throughput-loss energy of that
  timestep, although the energy is recorded and counted in the battery's net tally. When
  the heater is ON, the heater phase adds the throughput loss to the battery temperature
  together with the heater's share.
\<close>

theorem throughput_loss_heats_battery_only_when_heater_on:
  "(\<not> (use_heater p \<and> heater_on (heater_trigger p (heater_dwell p s))) \<longrightarrow>
      map_sum id fst (step p s (initial_row init lp (t\<lparr>Energy_Use_kWh := e\<rparr>)))
        = map_sum id fst (step p s (initial_row init lp t))
      \<and> (\<forall>s' r'. step p s (initial_row init lp t) = Inr (s', r') \<longrightarrow>
            battery_losses_input r' = Energy_Use_kWh t * 3600000 * lp \<and>
            battery_net_energy r'
              = Energy_Use_kWh t * 3600000 * lp
                - (battery_cond_to_box_inner_energy r' + battery_conv_to_box_inner_energy r'
                   + battery_radi_to_box_inner_energy r')))
   \<and> (use_heater p \<and> heater_on (heater_trigger p (heater_dwell p s)) \<longrightarrow>
        (\<forall>s1 r1. heater_phase p (s, initial_row init lp t) = Inr (s1, r1) \<longrightarrow>
           battery_temp_c s1
             = battery_temp_c s
               + (Energy_Use_kWh t * 3600000 * lp + heater_power_j p * battery_throughput_losses p
                  + heater_power_j p * heater_battery_transfer p)
                 / (battery_heat_capacity p * battery_mass_kg p)))"
proof (intro conjI impI allI)
  assume off: "\<not> (use_heater p \<and> heater_on (heater_trigger p (heater_dwell p s)))"
  show "map_sum id fst (step p s (initial_row init lp (t\<lparr>Energy_Use_kWh := e\<rparr>)))
          = map_sum id fst (step p s (initial_row init lp t))"
    by (rule step_state_without_heater[OF off initial_row_amb])
  fix s' r'
  assume run: "step p s (initial_row init lp t) = Inr (s', r')"
  have "\<not> (use_heater p \<and> heater_on s')"
    using off step_heater(1)[OF run] by simp
  then have t: "tallies r' = (0, 0, 0, Energy_Use_kWh t * 3600000 * lp, 0)"
    using step_tallies[OF run] by auto
  then show "battery_losses_input r' = Energy_Use_kWh t * 3600000 * lp"
    by (simp add: tallies_def)
  from t show "battery_net_energy r'
              = Energy_Use_kWh t * 3600000 * lp
                - (battery_cond_to_box_inner_energy r' + battery_conv_to_box_inner_energy r'
                   + battery_radi_to_box_inner_energy r')"
    by (simp add: tallies_def battery_residual_def)
next
  fix s1 r1
  assume on: "use_heater p \<and> heater_on (heater_trigger p (heater_dwell p s))"
    and h: "heater_phase p (s, initial_row init lp t) = Inr (s1, r1)"
  have b: "battery_temp_c (heater_trigger p (heater_dwell p s)) = battery_temp_c s"
    by (simp add: heater_trigger_def heater_dwell_def)
  have l: "battery_losses_input (initial_row init lp t) = Energy_Use_kWh t * 3600000 * lp"
    by (simp add: initial_row_def Let_def)
  from h have "heater_inject p (heater_trigger p (heater_dwell p s), initial_row init lp t)
                 = Inr (s1, r1)"
    by (simp add: heater_phase_def)
  from heater_inject_Inr[OF this] on b l
  show "battery_temp_c s1
             = battery_temp_c s
               + (Energy_Use_kWh t * 3600000 * lp + heater_power_j p * battery_throughput_losses p
                  + heater_power_j p * heater_battery_transfer p)
                 / (battery_heat_capacity p * battery_mass_kg p)"
    by simp
qed

theorem throughput_loss_heats_battery_only_when_heater_on_witness:
  "\<not> (use_heater example_params
        \<and> heater_on (heater_trigger example_params (heater_dwell example_params warm_state)))
   \<and> map_sum id fst (step example_params warm_state
                       (initial_row 8 0.03 ((example_sample 8)\<lparr>Energy_Use_kWh := 0.5\<rparr>)))
       = map_sum id fst (step example_params warm_state (initial_row 8 0.03 (example_sample 8)))
   \<and> (\<exists>s' r'. step example_params warm_state (initial_row 8 0.03 (example_sample 8)) = Inr (s', r')
         \<and> battery_losses_input r' = 1080
         \<and> battery_net_energy r'
             = 1080 - (battery_cond_to_box_inner_energy r' + battery_conv_to_box_inner_energy r'
                       + battery_radi_to_box_inner_energy r'))
   \<and> use_heater example_params
   \<and> heater_on (heater_trigger example_params (heater_dwell example_params retrigger_state))
   \<and> (\<exists>s1 r1. heater_phase example_params (retrigger_state, initial_row 4 0.03 (example_sample 4))
                  = Inr (s1, r1)
         \<and> battery_temp_c s1 = 6 + (1080 + 54 + 1440) / 36000)"
proof -
  have off: "\<not> (use_heater example_params
        \<and> heater_on (heater_trigger example_params (heater_dwell example_params warm_state)))"
    by (simp add: heater_trigger_def heater_dwell_def warm_state_def example_params_def)
  have on: "use_heater example_params
     \<and> heater_on (heater_trigger example_params (heater_dwell example_params retrigger_state))"
    by (simp add: heater_trigger_def heater_dwell_def retrigger_state_def example_params_def)
  obtain s' r' where
    st: "step example_params warm_state (initial_row 8 0.03 (example_sample 8)) = Inr (s', r')"
    using step_total[OF example_params_ok] by blast
  obtain s1 r1 where
    hp: "heater_phase example_params (retrigger_state, initial_row 4 0.03 (example_sample 4))
           = Inr (s1, r1)"
    using heater_inject_total[OF example_params_ok(1),
        of "(heater_trigger example_params (heater_dwell example_params retrigger_state),
             initial_row 4 0.03 (example_sample 4))"]
    by (auto simp: heater_phase_def)
  have e: "Energy_Use_kWh (example_sample a) * 3600000 * 0.03 = 1080" for a
    by (simp add: example_sample_def)
  note w = throughput_loss_heats_battery_only_when_heater_on
    [where p = example_params and s = warm_state and init = 8 and lp = "0.03"
      and t = "example_sample 8" and e = "0.5"]
  note r = throughput_loss_heats_battery_only_when_heater_on
    [where p = example_params and s = retrigger_state and init = 4 and lp = "0.03"
      and t = "example_sample 4" and e = "0.5"]
  have 1: "map_sum id fst (step example_params warm_state
                       (initial_row 8 0.03 ((example_sample 8)\<lparr>Energy_Use_kWh := 0.5\<rparr>)))
       = map_sum id fst (step example_params warm_state (initial_row 8 0.03 (example_sample 8)))"
    using w off by blast
  have 2: "battery_losses_input r' = 1080
         \<and> battery_net_energy r'
             = 1080 - (battery_cond_to_box_inner_energy r' + battery_conv_to_box_inner_energy r'
                       + battery_radi_to_box_inner_energy r')"
    using w off st e[of 8] by auto
  have "battery_temp_c s1
          = battery_temp_c retrigger_state
            + (Energy_Use_kWh (example_sample 4) * 3600000 * 0.03
               + heater_power_j example_params * battery_throughput_losses example_params
               + heater_power_j example_params * heater_battery_transfer example_params)
              / (battery_heat_capacity example_params * battery_mass_kg example_params)"
    using r on hp by blast
  then have 3: "battery_temp_c s1 = 6 + (1080 + 54 + 1440) / 36000"
    by (simp add: example_sample_def retrigger_state_def example_params_def)
  from off on 1 2 3 st hp show ?thesis by blast
qed


section \<open>The minimum on-time of the heater\<close>

subsection \<open>Temperature bounds for the example configuration\<close>

text \<open>
  With the ambient temperature at 5 degrees every flow of the example configuration moves
  a temperature by a fraction of the difference that drives it, so no temperature falls
  below 5 degrees, and the inner wall stays strictly above once it is.
\<close>

lemma pow4_diff_bounds:
  fixes x y m :: real
  assumes "0 \<le> y" "y \<le> x" "x \<le> m"
  shows "0 \<le> x ^ 4 - y ^ 4" and "x ^ 4 - y ^ 4 \<le> 4 * m ^ 3 * (x - y)"
proof -
  have e: "x ^ 4 - y ^ 4 = (x - y) * (x ^ 3 + x ^ 2 * y + x * y ^ 2 + y ^ 3)"
    by (simp add: power4_eq_xxxx power3_eq_cube power2_eq_square algebra_simps)
  have x0: "0 \<le> x" and ym: "y \<le> m" and m0: "0 \<le> m"
    using assms by linarith+
  have 1: "x ^ 3 \<le> m ^ 3" using x0 assms(3) by (simp add: power_mono)
  have 2: "y ^ 3 \<le> m ^ 3" using assms(1) ym by (simp add: power_mono)
  have x2: "x ^ 2 \<le> m ^ 2" using x0 assms(3) by (simp add: power_mono)
  have y2: "y ^ 2 \<le> m ^ 2" using assms(1) ym by (simp add: power_mono)
  have 3: "x ^ 2 * y \<le> m ^ 2 * m"
    using x2 ym assms(1) m0 by (intro mult_mono) simp_all
  have 4: "x * y ^ 2 \<le> m * m ^ 2"
    using y2 assms(3) x0 m0 by (intro mult_mono) simp_all
  have s: "x ^ 3 + x ^ 2 * y + x * y ^ 2 + y ^ 3 \<le> 4 * m ^ 3"
    using 1 2 3 4 by (simp add: power3_eq_cube power2_eq_square)
  have p: "0 \<le> x ^ 3 + x ^ 2 * y + x * y ^ 2 + y ^ 3"
    using x0 assms(1) by simp
  show "0 \<le> x ^ 4 - y ^ 4"
    unfolding e using assms(2) p by simp
  have "(x - y) * (x ^ 3 + x ^ 2 * y + x * y ^ 2 + y ^ 3) \<le> (x - y) * (4 * m ^ 3)"
    using s assms(2) by (intro mult_left_mono) simp_all
  then show "x ^ 4 - y ^ 4 \<le> 4 * m ^ 3 * (x - y)"
    unfolding e by (simp add: mult.commute)
qed

lemma cond_phase_band:
  assumes "cond_phase example_params (s, r) = Inr (s', r')" and "within_band 5 hi s"
  shows "within_band 5 hi s'" and "5 < box_inner_temp_c s \<Longrightarrow> 5 < box_inner_temp_c s'"
  using cond_phase_Inr[OF assms(1)] assms(2)
  by (auto simp: within_band_def example_params_def split: if_splits) argo+

lemma conv_phase_band:
  assumes "conv_phase example_params (s, r) = Inr (s', r')" and "within_band 5 hi s"
  shows "within_band 5 hi s'" and "5 < box_inner_temp_c s \<Longrightarrow> 5 < box_inner_temp_c s'"
  using conv_phase_Inr(1)[OF assms(1)] assms(2)
  by (auto simp: within_band_def example_params_def split: if_splits) argo+

lemma wall_phase_band:
  assumes "wall_phase example_params (s, r) = Inr (s', r')" and "within_band 5 hi s"
  shows "within_band 5 hi s'" and "5 < box_inner_temp_c s \<Longrightarrow> 5 < box_inner_temp_c s'"
  using wall_phase_Inr(1)[OF assms(1)] assms(2)
  by (auto simp: within_band_def example_params_def split: if_splits) argo+


lemma radi_phase_band:
  assumes run: "radi_phase example_params (s, r) = Inr (s', r')"
    and band: "within_band 5 hi s" and hi: "hi \<le> 20"
  shows "within_band 5 hi s'" and "5 < box_inner_temp_c s \<Longrightarrow> 5 < box_inner_temp_c s'"
proof -
  define d where
    "d = (battery_temp_c s + 273.15) ^ 4 - (box_inner_temp_c s + 273.15) ^ 4"
  have b: "5 \<le> battery_temp_c s" "battery_temp_c s \<le> 20"
    "5 \<le> box_inner_temp_c s" "box_inner_temp_c s \<le> 20"
    using band hi by (simp_all add: within_band_def)
  have d: "0 \<le> d \<and> d \<le> 108000000 * (battery_temp_c s - box_inner_temp_c s)
           \<or> d \<le> 0 \<and> 108000000 * (battery_temp_c s - box_inner_temp_c s) \<le> d"
  proof (cases "box_inner_temp_c s \<le> battery_temp_c s")
    case True
    then show ?thesis
      using pow4_diff_bounds[of "box_inner_temp_c s + 273.15" "battery_temp_c s + 273.15" 300] b
      by (simp add: d_def)
  next
    case False
    then show ?thesis
      using pow4_diff_bounds[of "battery_temp_c s + 273.15" "box_inner_temp_c s + 273.15" 300] b
      by (simp add: d_def)
  qed
  have tb: "battery_temp_c s' = battery_temp_c s - 1837080 / 430000000000 * d / 36000"
    and ti: "box_inner_temp_c s' = box_inner_temp_c s + 1837080 / 430000000000 * d / 15000"
    and tout: "box_outer_temp_c s' = box_outer_temp_c s"
    by (simp_all add: radi_phase_Inr(1)[OF run] d_def example_params_def
        stefan_boltzmann_constant_def)
  have o: "5 \<le> box_outer_temp_c s" "box_outer_temp_c s \<le> hi"
    "battery_temp_c s \<le> hi" "box_inner_temp_c s \<le> hi"
    using band by (simp_all add: within_band_def)
  show "within_band 5 hi s'"
    unfolding within_band_def tb ti tout using d b o by argo
  show "5 < box_inner_temp_c s'" if "5 < box_inner_temp_c s"
    unfolding ti using that d b by argo
qed

lemma env_phase_band:
  assumes run: "env_phase example_params (s, r) = Inr (s', r')" and amb: "amb_temp r = 5"
    and band: "within_band 5 hi s" and hi: "hi \<le> 20"
  shows "within_band 5 hi s'" and "box_inner_temp_c s' = box_inner_temp_c s"
proof -
  define d where "d = (box_outer_temp_c s + 273.15) ^ 4 - (5 + 273.15) ^ 4"
  have b: "5 \<le> box_outer_temp_c s" "box_outer_temp_c s \<le> 20"
    using band hi by (simp_all add: within_band_def)
  have d: "0 \<le> d" "d \<le> 108000000 * (box_outer_temp_c s - 5)"
    using pow4_diff_bounds[of "5 + 273.15" "box_outer_temp_c s + 273.15" 300] b
    by (simp_all add: d_def)
  have tout: "box_outer_temp_c s'
                = box_outer_temp_c s
                  - ((box_outer_temp_c s - 5) * 300 + (box_outer_temp_c s - 5) * 120
                     + 61236 / 10000000000 * d) / 15000"
    and ti: "box_inner_temp_c s' = box_inner_temp_c s"
    and tb: "battery_temp_c s' = battery_temp_c s"
    by (simp_all add: env_phase_Inr(1)[OF run] amb d_def example_params_def
        calculate_outer_radiative_heat_flow_def stefan_boltzmann_constant_def field_simps)
  have o: "5 \<le> battery_temp_c s" "battery_temp_c s \<le> hi"
    "5 \<le> box_inner_temp_c s" "box_inner_temp_c s \<le> hi" "box_outer_temp_c s \<le> hi"
    using band by (simp_all add: within_band_def)
  show "within_band 5 hi s'"
    unfolding within_band_def tb ti tout using d b o by argo
  show "box_inner_temp_c s' = box_inner_temp_c s" by (rule ti)
qed

lemma heater_inject_band:
  assumes run: "heater_inject example_params (s, r) = Inr (s', r')"
    and loss: "0 \<le> battery_losses_input r" "battery_losses_input r \<le> 2000"
    and band: "within_band 5 hi s"
  shows "within_band 5 (hi + 0.1) s'"
    and "5 < box_inner_temp_c s \<or> heater_on s \<Longrightarrow> 5 < box_inner_temp_c s'"
  using heater_inject_Inr[OF run] loss band
  by (auto simp: within_band_def example_params_def split: if_splits) argo+


lemma step_heater_input:
  assumes run: "step p s r = Inr (s', r')" and z: "battery_heater_input r = 0"
  shows "battery_heater_input r'
           = (if use_heater p \<and> heater_on s' then heater_power_j p else 0)"
proof -
  from run obtain s1 r1 s2 r2 s3 r3 s4 r4 s5 r5 s6 r6 where
    h: "heater_inject p (heater_trigger p (heater_dwell p s), r) = Inr (s1, r1)"
    and c: "cond_phase p (s1, r1) = Inr (s2, r2)"
    and v: "conv_phase p (s2, r2) = Inr (s3, r3)"
    and d: "radi_phase p (s3, r3) = Inr (s4, r4)"
    and w: "wall_phase p (s4, r4) = Inr (s5, r5)"
    and e: "env_phase p (s5, r5) = Inr (s6, r6)"
    and f: "(s', r') = record_phase (s6, r6)"
    by (rule step_phases)
  have 1: "battery_heater_input r1
             = (if use_heater p \<and> heater_on (heater_trigger p (heater_dwell p s))
                then heater_power_j p else 0)"
    using heater_inject_Inr[OF h] z by (auto split: if_splits)
  have 2: "battery_heater_input r2 = battery_heater_input r1"
    using cond_phase_Inr[OF c] by (auto split: if_splits)
  have "battery_heater_input r' = battery_heater_input r2"
    using f by (simp add: record_phase_def conv_phase_Inr(2)[OF v] radi_phase_Inr(2)[OF d]
        wall_phase_Inr(2)[OF w] env_phase_Inr(2)[OF e])
  with 1 2 step_heater(1)[OF run] show ?thesis by simp
qed

lemma step_band:
  assumes run: "step example_params s r = Inr (s', r')" and amb: "amb_temp r = 5"
    and loss: "0 \<le> battery_losses_input r" "battery_losses_input r \<le> 2000"
    and band: "within_band 5 hi s" and hi: "hi \<le> 19"
  shows "within_band 5 (hi + 0.1) s'"
    and "5 < box_inner_temp_c s \<or> heater_on s' \<Longrightarrow> 5 < box_inner_temp_c s'"
proof -
  let ?p = example_params
  from run obtain s1 r1 s2 r2 s3 r3 s4 r4 s5 r5 s6 r6 where
    h: "heater_inject ?p (heater_trigger ?p (heater_dwell ?p s), r) = Inr (s1, r1)"
    and c: "cond_phase ?p (s1, r1) = Inr (s2, r2)"
    and v: "conv_phase ?p (s2, r2) = Inr (s3, r3)"
    and d: "radi_phase ?p (s3, r3) = Inr (s4, r4)"
    and w: "wall_phase ?p (s4, r4) = Inr (s5, r5)"
    and e: "env_phase ?p (s5, r5) = Inr (s6, r6)"
    and f: "(s', r') = record_phase (s6, r6)"
    by (rule step_phases)
  have a5: "amb_temp r5 = 5"
    using heater_inject_Inr[OF h] cond_phase_Inr[OF c] amb
    by (auto simp: conv_phase_Inr(2)[OF v] radi_phase_Inr(2)[OF d] wall_phase_Inr(2)[OF w]
        split: if_splits)
  have b0: "within_band 5 hi (heater_trigger ?p (heater_dwell ?p s))"
    using band by (simp add: within_band_def heater_trigger_def heater_dwell_def)
  have t0: "box_inner_temp_c (heater_trigger ?p (heater_dwell ?p s)) = box_inner_temp_c s"
    by (simp add: heater_trigger_def heater_dwell_def)
  have hi': "hi + 0.1 \<le> 20"
    using hi by simp
  have b1: "within_band 5 (hi + 0.1) s1"
    by (rule heater_inject_band(1)[OF h loss b0])
  have b2: "within_band 5 (hi + 0.1) s2"
    by (rule cond_phase_band(1)[OF c b1])
  have b3: "within_band 5 (hi + 0.1) s3"
    by (rule conv_phase_band(1)[OF v b2])
  have b4: "within_band 5 (hi + 0.1) s4"
    by (rule radi_phase_band(1)[OF d b3 hi'])
  have b5: "within_band 5 (hi + 0.1) s5"
    by (rule wall_phase_band(1)[OF w b4])
  have b6: "within_band 5 (hi + 0.1) s6"
    by (rule env_phase_band(1)[OF e a5 b5 hi'])
  have s6: "s' = s6"
    using f by (simp add: record_phase_def)
  show "within_band 5 (hi + 0.1) s'"
    using b6 s6 by simp
  show "5 < box_inner_temp_c s'" if "5 < box_inner_temp_c s \<or> heater_on s'"
  proof -
    have "5 < box_inner_temp_c s \<or> heater_on (heater_trigger ?p (heater_dwell ?p s))"
      using that step_heater(1)[OF run] by simp
    then have "5 < box_inner_temp_c s1"
      using heater_inject_band(2)[OF h loss b0] t0 by simp
    then have "5 < box_inner_temp_c s2"
      by (rule cond_phase_band(2)[OF c b1])
    then have "5 < box_inner_temp_c s3"
      by (rule conv_phase_band(2)[OF v b2])
    then have "5 < box_inner_temp_c s4"
      by (rule radi_phase_band(2)[OF d b3 hi'])
    then have "5 < box_inner_temp_c s5"
      by (rule wall_phase_band(2)[OF w b4])
    then show ?thesis
      using env_phase_band(2)[OF e a5 b5 hi'] s6 by simp
  qed
qed


lemma example_controller:
  "heater_on (heater_trigger example_params (heater_dwell example_params s))
     \<longleftrightarrow> box_inner_temp_c s \<le> 5 \<or> heater_on s \<and> heater_counter s < 5"
  "heater_counter (heater_trigger example_params (heater_dwell example_params s))
     = (if box_inner_temp_c s \<le> 5 then 0
        else if heater_on s then (if heater_counter s < 5 then heater_counter s + 1 else 0)
        else heater_counter s)"
  by (auto simp: heater_trigger_def heater_dwell_def example_params_def)

lemma example_step:
  assumes run: "step example_params s (initial_row 5 0.03 (example_sample 5)) = Inr (s', r')"
    and band: "within_band 5 hi s" and hi: "hi \<le> 19"
  shows "within_band 5 (hi + 0.1) s'"
    and "5 < box_inner_temp_c s \<or> heater_on s' \<Longrightarrow> 5 < box_inner_temp_c s'"
    and "heater_on s' \<longleftrightarrow> box_inner_temp_c s \<le> 5 \<or> heater_on s \<and> heater_counter s < 5"
    and "heater_counter s'
           = (if box_inner_temp_c s \<le> 5 then 0
              else if heater_on s then (if heater_counter s < 5 then heater_counter s + 1 else 0)
              else heater_counter s)
             + (if heater_on s' then 1 else 0)"
    and "battery_heater_input r' = (if heater_on s' then 1800 else 0)"
proof -
  let ?r = "initial_row 5 0.03 (example_sample 5)"
  have r: "amb_temp ?r = 5" "0 \<le> battery_losses_input ?r" "battery_losses_input ?r \<le> 2000"
    "battery_heater_input ?r = 0"
    by (simp_all add: initial_row_def example_sample_def Let_def)
  have u: "use_heater example_params" "heater_power_j example_params = 1800"
    by (simp_all add: example_params_def)
  show "within_band 5 (hi + 0.1) s'"
    by (rule step_band(1)[OF run r(1-3) band hi])
  show "5 < box_inner_temp_c s \<or> heater_on s' \<Longrightarrow> 5 < box_inner_temp_c s'"
    by (rule step_band(2)[OF run r(1-3) band hi])
  show on: "heater_on s' \<longleftrightarrow> box_inner_temp_c s \<le> 5 \<or> heater_on s \<and> heater_counter s < 5"
    using step_heater(1)[OF run] by (simp add: example_controller)
  show "heater_counter s'
           = (if box_inner_temp_c s \<le> 5 then 0
              else if heater_on s then (if heater_counter s < 5 then heater_counter s + 1 else 0)
              else heater_counter s)
             + (if heater_on s' then 1 else 0)"
    using step_heater[OF run] u by (simp add: example_controller)
  show "battery_heater_input r' = (if heater_on s' then 1800 else 0)"
    using step_heater_input[OF run r(4)] u by simp
qed

text \<open>
  C2. Once the heater turns ON it should stay ON for at least \<^verbatim>\<open>heater_time_minutes\<close>
  timesteps. The loop counts every ON timestep twice, once in the bookkeeping at the top
  and once after the injection, so the heater is switched off after about half that
  time. With a minimum on-time of 5 and four samples at 5 degrees, the heater is
  triggered in the first timestep, injects 1800 J in the first three timesteps and is
  OFF in the fourth, with the inner wall above the threshold from the second timestep on.
\<close>

theorem heater_stops_before_minimum_on_time:
  "heater_time_minutes example_params = 5
   \<and> map_sum id (map (\<lambda>(s, r). (heater_on s, battery_heater_input r)))
         (jit_trace example_params cold_start)
       = Inr [(True, 1800), (True, 1800), (True, 1800), (False, 0)]"
proof -
  let ?p = example_params
  define r0 where "r0 = initial_row 5 0.03 (example_sample 5)"
  define s0 where "s0 = initial_state r0"
  have cs: "cold_start = [r0, r0, r0, r0]"
    by (simp add: cold_start_def r0_def)
  have s0: "within_band 5 5 s0" "box_inner_temp_c s0 = 5" "\<not> heater_on s0" "heater_counter s0 = 0"
    by (simp_all add: s0_def r0_def initial_state_def initial_row_def within_band_def Let_def)
  obtain s1 r1 where st1: "step ?p s0 r0 = Inr (s1, r1)"
    using step_total[OF example_params_ok] by blast
  note f1 = example_step[OF st1[unfolded r0_def] s0(1)]
  have s1: "within_band 5 5.1 s1" "heater_on s1" "heater_counter s1 = 1"
    "battery_heater_input r1 = 1800"
    using f1(1,3,4,5) s0 by simp_all
  have t1: "5 < box_inner_temp_c s1"
    using f1(2) s1(2) by simp
  obtain s2 r2 where st2: "step ?p s1 r0 = Inr (s2, r2)"
    using step_total[OF example_params_ok] by blast
  note f2 = example_step[OF st2[unfolded r0_def] s1(1)]
  have s2: "within_band 5 5.2 s2" "heater_on s2" "heater_counter s2 = 3"
    "battery_heater_input r2 = 1800"
    using f2(1,3,4,5) s1 t1 by simp_all
  have t2: "5 < box_inner_temp_c s2"
    using f2(2) t1 by simp
  obtain s3 r3 where st3: "step ?p s2 r0 = Inr (s3, r3)"
    using step_total[OF example_params_ok] by blast
  note f3 = example_step[OF st3[unfolded r0_def] s2(1)]
  have s3: "within_band 5 5.3 s3" "heater_on s3" "heater_counter s3 = 5"
    "battery_heater_input r3 = 1800"
    using f3(1,3,4,5) s2 t2 by simp_all
  have t3: "5 < box_inner_temp_c s3"
    using f3(2) t2 by simp
  obtain s4 r4 where st4: "step ?p s3 r0 = Inr (s4, r4)"
    using step_total[OF example_params_ok] by blast
  note f4 = example_step[OF st4[unfolded r0_def] s3(1)]
  have s4: "\<not> heater_on s4" "battery_heater_input r4 = 0"
    using f4(3,5) s3 t3 by simp_all
  have "jit_trace ?p cold_start = Inr [(s1, r1), (s2, r2), (s3, r3), (s4, r4)]"
    unfolding cs
    by (simp add: jit_trace_def list_index_def s0_def[symmetric] st1 st2 st3 st4)
  then show ?thesis
    using s1 s2 s3 s4 by (simp add: example_params_def)
qed


end
